theory Spec2Isabelle
  imports Main "HOL-Library.Word"
begin

unbundle bit_operations_syntax

section \<open>Python text and bytes\<close>

text \<open>
  A Python \<open>str\<close> is a sequence of Unicode code points; it is modelled as a list of
  integers, so that \<open>len\<close>, slicing and \<open>strip\<close> count code points as Python does.
  \<open>py\<close> turns an ASCII literal of the source into such a list.  Exceptions of the
  source are values of \<open>error\<close>, returned on the left of a sum.
\<close>

type_synonym pystr = "int list"
type_synonym bytes = "8 word list"
type_synonym w32 = "32 word"

definition py :: "string \<Rightarrow> pystr" where
  "py s = map of_char s"

datatype error = FileNotFoundError | UnicodeEncodeError | RecursionError | OSError

text \<open>\<open>str.isspace\<close> on one code point: the characters \<open>str.strip()\<close> and
  \<open>str.split()\<close> treat as whitespace.\<close>

definition isspace :: "int \<Rightarrow> bool" where
  "isspace c = ((9 \<le> c \<and> c \<le> 13) \<or> (28 \<le> c \<and> c \<le> 32) \<or> c = 0x85 \<or> c = 0xA0 \<or>
     c = 0x1680 \<or> (0x2000 \<le> c \<and> c \<le> 0x200A) \<or> c = 0x2028 \<or> c = 0x2029 \<or>
     c = 0x202F \<or> c = 0x205F \<or> c = 0x3000)"

definition lstrip :: "pystr \<Rightarrow> pystr" where
  "lstrip s = dropWhile isspace s"

definition rstrip :: "pystr \<Rightarrow> pystr" where
  "rstrip s = rev (dropWhile isspace (rev s))"

definition strip :: "pystr \<Rightarrow> pystr" where
  "strip s = rstrip (lstrip s)"

definition startswith :: "pystr \<Rightarrow> pystr \<Rightarrow> bool" where
  "startswith s p = (take (length p) s = p)"

definition endswith :: "pystr \<Rightarrow> pystr \<Rightarrow> bool" where
  "endswith s p = (length p \<le> length s \<and> drop (length s - length p) s = p)"

text \<open>\<open>sub in s\<close> for strings.\<close>

fun contains :: "pystr \<Rightarrow> pystr \<Rightarrow> bool" where
  "contains [] sub = (sub = [])"
| "contains (c # cs) sub = (startswith (c # cs) sub \<or> contains cs sub)"

text \<open>\<open>s.split(sep)\<close> for a one-character separator: always at least one part.\<close>

fun split_on :: "int \<Rightarrow> pystr \<Rightarrow> pystr list" where
  "split_on sep [] = [[]]"
| "split_on sep (c # cs) =
     (if c = sep then [] # split_on sep cs
      else case split_on sep cs of
             [] \<Rightarrow> [[c]]
           | p # ps \<Rightarrow> (c # p) # ps)"

text \<open>\<open>s.split()\<close>: the maximal runs of non-whitespace characters.\<close>

fun split_ws_aux :: "pystr \<Rightarrow> pystr \<Rightarrow> pystr list" where
  "split_ws_aux cur [] = (if cur = [] then [] else [cur])"
| "split_ws_aux cur (c # cs) =
     (if isspace c then (if cur = [] then split_ws_aux [] cs else cur # split_ws_aux [] cs)
      else split_ws_aux (cur @ [c]) cs)"

definition split_ws :: "pystr \<Rightarrow> pystr list" where
  "split_ws s = split_ws_aux [] s"

text \<open>\<open>sep.join(parts)\<close>.\<close>

fun join :: "pystr \<Rightarrow> pystr list \<Rightarrow> pystr" where
  "join sep [] = []"
| "join sep [p] = p"
| "join sep (p # q # ps) = p @ sep @ join sep (q # ps)"

text \<open>\<open>s.replace(old, '')\<close> for a non-empty \<open>old\<close>: occurrences are removed from
  left to right, without overlap.\<close>

fun remove_all :: "pystr \<Rightarrow> pystr \<Rightarrow> pystr" where
  "remove_all old [] = []"
| "remove_all old (c # cs) =
     (if old \<noteq> [] \<and> startswith (c # cs) old
      then remove_all old (drop (length old) (c # cs))
      else c # remove_all old cs)"

text \<open>\<open>s[a:b]\<close> for non-negative \<open>a\<close> and \<open>b\<close>.\<close>

definition slice :: "pystr \<Rightarrow> nat \<Rightarrow> nat \<Rightarrow> pystr" where
  "slice s a b = take (b - a) (drop a s)"

text \<open>\<open>s.encode('utf-8')\<close>: a lone surrogate has no UTF-8 form and raises
  \<open>UnicodeEncodeError\<close>.\<close>

definition is_scalar :: "int \<Rightarrow> bool" where
  "is_scalar c = ((0 \<le> c \<and> c < 0xD800) \<or> (0xE000 \<le> c \<and> c < 0x110000))"

definition utf8_char :: "int \<Rightarrow> bytes" where
  "utf8_char c =
     (if c < 0x80 then [of_int c]
      else if c < 0x800 then [of_int (0xC0 + c div 64), of_int (0x80 + c mod 64)]
      else if c < 0x10000 then
        [of_int (0xE0 + c div 4096), of_int (0x80 + (c div 64) mod 64), of_int (0x80 + c mod 64)]
      else
        [of_int (0xF0 + c div 262144), of_int (0x80 + (c div 4096) mod 64),
         of_int (0x80 + (c div 64) mod 64), of_int (0x80 + c mod 64)])"

fun encode_utf8 :: "pystr \<Rightarrow> error + bytes" where
  "encode_utf8 [] = Inr []"
| "encode_utf8 (c # cs) =
     (if \<not> is_scalar c then Inl UnicodeEncodeError
      else case encode_utf8 cs of Inl e \<Rightarrow> Inl e | Inr bs \<Rightarrow> Inr (utf8_char c @ bs))"

section \<open>SHA-256 (\<open>hashlib.sha256(...).hexdigest()\<close>)\<close>

text \<open>The hash of FIPS 180-4 on 32-bit words: padding to whole 64-byte blocks, the
  message schedule of 64 words, 64 rounds per block, and the digest printed as 64
  lower-case hexadecimal digits.\<close>

definition Ch :: "w32 \<Rightarrow> w32 \<Rightarrow> w32 \<Rightarrow> w32" where
  "Ch x y z = (x AND y) XOR (NOT x AND z)"

definition Maj :: "w32 \<Rightarrow> w32 \<Rightarrow> w32 \<Rightarrow> w32" where
  "Maj x y z = (x AND y) XOR (x AND z) XOR (y AND z)"

definition bsig0 :: "w32 \<Rightarrow> w32" where
  "bsig0 x = word_rotr 2 x XOR word_rotr 13 x XOR word_rotr 22 x"

definition bsig1 :: "w32 \<Rightarrow> w32" where
  "bsig1 x = word_rotr 6 x XOR word_rotr 11 x XOR word_rotr 25 x"

definition ssig0 :: "w32 \<Rightarrow> w32" where
  "ssig0 x = word_rotr 7 x XOR word_rotr 18 x XOR drop_bit 3 x"

definition ssig1 :: "w32 \<Rightarrow> w32" where
  "ssig1 x = word_rotr 17 x XOR word_rotr 19 x XOR drop_bit 10 x"

text \<open>The constants are the first 32 bits of the fractional parts of the cube roots
  (round constants) and square roots (initial state) of the first primes; the integer
  root is found bit by bit.\<close>

fun root_bits :: "nat \<Rightarrow> nat \<Rightarrow> int \<Rightarrow> int \<Rightarrow> int \<Rightarrow> int" where
  "root_bits k 0 b n r = r"
| "root_bits k (Suc f) b n r =
     root_bits k f (b div 2) n (if (r + b) ^ k \<le> n then r + b else r)"

definition iroot :: "nat \<Rightarrow> int \<Rightarrow> int" where
  "iroot k n = root_bits k 36 (2 ^ 35) n 0"

definition frac_root :: "nat \<Rightarrow> int \<Rightarrow> w32" where
  "frac_root k p = of_int (iroot k (p * 2 ^ (32 * k)))"

definition first_primes :: "int list" where
  "first_primes = [2, 3, 5, 7, 11, 13, 17, 19, 23, 29, 31, 37, 41, 43, 47, 53, 59, 61, 67, 71,
     73, 79, 83, 89, 97, 101, 103, 107, 109, 113, 127, 131, 137, 139, 149, 151, 157, 163, 167,
     173, 179, 181, 191, 193, 197, 199, 211, 223, 227, 229, 233, 239, 241, 251, 257, 263, 269,
     271, 277, 281, 283, 293, 307, 311]"

definition sha_K :: "w32 list" where
  "sha_K = map (frac_root 3) first_primes"

type_synonym sha_state = "w32 \<times> w32 \<times> w32 \<times> w32 \<times> w32 \<times> w32 \<times> w32 \<times> w32"

definition sha_H0 :: sha_state where
  "sha_H0 = (frac_root 2 2, frac_root 2 3, frac_root 2 5, frac_root 2 7,
             frac_root 2 11, frac_root 2 13, frac_root 2 17, frac_root 2 19)"

definition sha_pad :: "bytes \<Rightarrow> bytes" where
  "sha_pad m =
     (let n = length m;
          z = (119 - n mod 64) mod 64;
          bits = (8 * of_nat n :: 64 word)
      in m @ [0x80] @ replicate z 0 @
         map (\<lambda>i. ucast (drop_bit (8 * (7 - i)) bits)) [0..<8])"

fun be_words :: "bytes \<Rightarrow> w32 list" where
  "be_words (a # b # c # d # r) =
     (push_bit 24 (ucast a) OR push_bit 16 (ucast b) OR push_bit 8 (ucast c) OR ucast d) # be_words r"
| "be_words _ = []"

fun sha_schedule :: "nat \<Rightarrow> w32 list \<Rightarrow> w32 list" where
  "sha_schedule 0 w = w"
| "sha_schedule (Suc n) w =
     (let t = length w
      in sha_schedule n
           (w @ [ssig1 (w ! (t - 2)) + w ! (t - 7) + ssig0 (w ! (t - 15)) + w ! (t - 16)]))"

fun sha_round :: "sha_state \<Rightarrow> w32 \<times> w32 \<Rightarrow> sha_state" where
  "sha_round (a, b, c, d, e, f, g, h) (k, w) =
     (let t1 = h + bsig1 e + Ch e f g + k + w;
          t2 = bsig0 a + Maj a b c
      in (t1 + t2, a, b, c, d + t1, e, f, g))"

fun sha_add :: "sha_state \<Rightarrow> sha_state \<Rightarrow> sha_state" where
  "sha_add (a, b, c, d, e, f, g, h) (a', b', c', d', e', f', g', h') =
     (a + a', b + b', c + c', d + d', e + e', f + f', g + g', h + h')"

definition sha_compress :: "sha_state \<Rightarrow> bytes \<Rightarrow> sha_state" where
  "sha_compress st block =
     sha_add st (foldl sha_round st (zip sha_K (sha_schedule 48 (be_words block))))"

fun sha_blocks :: "nat \<Rightarrow> sha_state \<Rightarrow> bytes \<Rightarrow> sha_state" where
  "sha_blocks 0 st m = st"
| "sha_blocks (Suc n) st m = sha_blocks n (sha_compress st (take 64 m)) (drop 64 m)"

definition sha256 :: "bytes \<Rightarrow> sha_state" where
  "sha256 m = (let p = sha_pad m in sha_blocks (length p div 64) sha_H0 p)"

definition hex_digit :: "nat \<Rightarrow> int" where
  "hex_digit d = (if d < 10 then 48 + int d else 87 + int d)"

definition hex_word :: "w32 \<Rightarrow> pystr" where
  "hex_word w = map (\<lambda>i. hex_digit (unat (drop_bit (4 * (7 - i)) w AND 0xF))) [0..<8]"

definition is_hexdigit :: "int \<Rightarrow> bool" where
  "is_hexdigit c = ((48 \<le> c \<and> c \<le> 57) \<or> (97 \<le> c \<and> c \<le> 102))"

fun hexdigest :: "sha_state \<Rightarrow> pystr" where
  "hexdigest (a, b, c, d, e, f, g, h) =
     hex_word a @ hex_word b @ hex_word c @ hex_word d @
     hex_word e @ hex_word f @ hex_word g @ hex_word h"

section \<open>Chunk identity\<close>

text \<open>\<open>JavaCodeParser._generate_method_id\<close> (java_parser.py) and
  \<open>VectorStore.generate_id\<close> (vector_store.py).\<close>

definition generate_method_id :: "pystr \<Rightarrow> pystr \<Rightarrow> error + pystr" where
  "generate_method_id class_context method_signature =
     (let unique_string = class_context @ py ''::'' @ method_signature
      in case encode_utf8 unique_string of
           Inl e \<Rightarrow> Inl e
         | Inr bs \<Rightarrow> Inr (hexdigest (sha256 bs)))"

definition generate_id :: "pystr \<Rightarrow> pystr \<Rightarrow> pystr \<Rightarrow> error + pystr" where
  "generate_id package class_name signature =
     (let unique_string = package @ py ''::'' @ class_name @ py ''::'' @ signature
      in case encode_utf8 unique_string of
           Inl e \<Rightarrow> Inl e
         | Inr bs \<Rightarrow> Inr (hexdigest (sha256 bs)))"

section \<open>Syntax trees\<close>

text \<open>
  A node of the tree-sitter tree: its grammar type (\<open>node.type\<close>), its byte range,
  its own text (\<open>node.text.decode('utf8')\<close>) and its children in source order.
  The source reads a node's text in two ways, both kept here: from the node itself, and
  as \<open>source_code[node.start_byte:node.end_byte]\<close>, a slice of the decoded string
  taken at the byte offsets.
\<close>

datatype node =
  Node (ntype: string) (start_byte: nat) (end_byte: nat) (node_text: pystr) (children: "node list")

definition node_source :: "pystr \<Rightarrow> node \<Rightarrow> pystr" where
  "node_source source_code n = slice source_code (start_byte n) (end_byte n)"

fun find_nodes_by_type :: "node \<Rightarrow> string \<Rightarrow> node list" where
  "find_nodes_by_type (Node t s e x cs) node_type =
     (if t = node_type then [Node t s e x cs] else []) @
     concat (map (\<lambda>c. find_nodes_by_type c node_type) cs)"

text \<open>\<open>_get_parent_class\<close>, the same in the scanner and in the parser: the first
  type node inside the first superclass clause that has one, generic arguments cut.\<close>

definition superclass_types :: "string list" where
  "superclass_types = [''type_identifier'', ''generic_type'', ''scoped_type_identifier'']"

fun parent_of_children :: "pystr \<Rightarrow> node list \<Rightarrow> pystr option" where
  "parent_of_children source_code [] = None"
| "parent_of_children source_code (child # rest) =
     (if ntype child = ''superclass'' then
        (case find (\<lambda>sc. ntype sc \<in> set superclass_types) (children child) of
           Some sc \<Rightarrow>
             (let parent_name = node_source source_code sc;
                  parent_name = (if 60 \<in> set parent_name then hd (split_on 60 parent_name)
                                 else parent_name)
              in Some (strip parent_name))
         | None \<Rightarrow> parent_of_children source_code rest)
      else parent_of_children source_code rest)"

definition get_parent_class :: "node \<Rightarrow> pystr \<Rightarrow> pystr option" where
  "get_parent_class class_node source_code = parent_of_children source_code (children class_node)"

text \<open>Truthiness of an optional string: \<open>None\<close> and the empty string are false.\<close>

fun truthy :: "pystr option \<Rightarrow> bool" where
  "truthy None = False"
| "truthy (Some s) = (s \<noteq> [])"

section \<open>The hierarchy map\<close>

text \<open>
  One entry of the hierarchy map, and the map itself: a Python \<open>dict\<close>, kept as an
  association list in insertion order, because the parser's fallback lookup walks
  \<open>items()\<close> and takes the first match.  Assigning to a key that is present replaces
  the value and keeps the key's place.
\<close>

record class_record =
  parent :: "pystr option"
  methods :: "pystr list"
  simple_name :: pystr

type_synonym hierarchy_map = "(pystr \<times> class_record) list"

fun dict_set :: "('k \<times> 'v) list \<Rightarrow> 'k \<Rightarrow> 'v \<Rightarrow> ('k \<times> 'v) list" where
  "dict_set [] k v = [(k, v)]"
| "dict_set ((k', v') # d) k v =
     (if k' = k then (k, v) # d else (k', v') # dict_set d k v)"

definition dict_update :: "('k \<times> 'v) list \<Rightarrow> ('k \<times> 'v) list \<Rightarrow> ('k \<times> 'v) list" where
  "dict_update d items = foldl (\<lambda>acc (k, v). dict_set acc k v) d items"

section \<open>HierarchyScanner (hierarchy_scanner.py)\<close>

fun scanner_extract_package_name :: "node list \<Rightarrow> pystr \<Rightarrow> pystr" where
  "scanner_extract_package_name [] source_code = py ''None''"
| "scanner_extract_package_name (child # rest) source_code =
     (if ntype child = ''package_declaration'' then
        (case find (\<lambda>pc. ntype pc \<in> {''scoped_identifier'', ''identifier''}) (children child) of
           Some pc \<Rightarrow> node_source source_code pc
         | None \<Rightarrow> scanner_extract_package_name rest source_code)
      else scanner_extract_package_name rest source_code)"

definition scanner_get_class_name :: "node \<Rightarrow> pystr option" where
  "scanner_get_class_name class_node =
     map_option node_text (find (\<lambda>c. ntype c = ''identifier'') (children class_node))"

text \<open>The inner loop of \<open>_get_public_method_names\<close> over the children of one method
  declaration, with its two variables \<open>is_public\<close> and \<open>method_name\<close>.\<close>

fun method_facts :: "pystr \<Rightarrow> node list \<Rightarrow> bool \<Rightarrow> pystr option \<Rightarrow> bool \<times> pystr option" where
  "method_facts source_code [] is_public method_name = (is_public, method_name)"
| "method_facts source_code (mc # mcs) is_public method_name =
     (if ntype mc = ''modifiers'' then
        method_facts source_code mcs
          (if contains (node_source source_code mc) (py ''public'') then True else is_public)
          method_name
      else if ntype mc = ''identifier'' then
        method_facts source_code mcs is_public (Some (node_text mc))
      else method_facts source_code mcs is_public method_name)"

fun public_names_loop :: "pystr \<Rightarrow> node list \<Rightarrow> pystr list \<Rightarrow> pystr list" where
  "public_names_loop source_code [] method_names = method_names"
| "public_names_loop source_code (child # rest) method_names =
     (if ntype child = ''method_declaration'' then
        (case method_facts source_code (children child) False None of
           (is_public, method_name) \<Rightarrow>
             if is_public \<and> truthy method_name
             then public_names_loop source_code rest (method_names @ [the method_name])
             else public_names_loop source_code rest method_names)
      else public_names_loop source_code rest method_names)"

definition get_public_method_names :: "node \<Rightarrow> pystr \<Rightarrow> pystr list" where
  "get_public_method_names class_node source_code =
     (case find (\<lambda>c. ntype c = ''class_body'') (children class_node) of
        None \<Rightarrow> []
      | Some class_body \<Rightarrow> public_names_loop source_code (children class_body) [])"

text \<open>The loop of \<open>_extract_class_info\<close> over the class declarations of one file.\<close>

fun class_info_loop :: "pystr \<Rightarrow> pystr \<Rightarrow> node list \<Rightarrow> hierarchy_map \<Rightarrow> hierarchy_map" where
  "class_info_loop source_code package_name [] class_info = class_info"
| "class_info_loop source_code package_name (class_node # rest) class_info =
     (case scanner_get_class_name class_node of
        None \<Rightarrow> class_info_loop source_code package_name rest class_info
      | Some class_name \<Rightarrow>
          if class_name = [] then class_info_loop source_code package_name rest class_info
          else
            let parent_name = get_parent_class class_node source_code;
                public_methods = get_public_method_names class_node source_code;
                full_class_name =
                  (if package_name \<noteq> [] \<and> package_name \<noteq> py ''None''
                   then package_name @ py ''.'' @ class_name else class_name)
            in class_info_loop source_code package_name rest
                 (dict_set class_info full_class_name
                    \<lparr>parent = parent_name, methods = public_methods, simple_name = class_name\<rparr>))"

subsection \<open>The file system and the external parser\<close>

text \<open>
  A path is absolute or relative and has its components; the file system maps a path to
  a directory or to a file with its decoded text.  The tree-sitter parser, the order in
  which \<open>rglob\<close> lists the matches, and \<open>json.dump\<close> are outside the repository and
  are parameters.  \<open>ts_parse\<close> may fail, so that any exception raised while one file is
  processed has a place in the model.
\<close>

datatype path = Path (is_absolute: bool) (parts: "pystr list")

datatype fsentry = Dir | File pystr

type_synonym filesystem = "path \<Rightarrow> fsentry option"

record env =
  ts_parse :: "bytes \<Rightarrow> error + node"
  rglob_java :: "filesystem \<Rightarrow> path \<Rightarrow> path list"
  json_dump :: "hierarchy_map \<Rightarrow> pystr"

definition path_join :: "path \<Rightarrow> path \<Rightarrow> path" where
  "path_join a b = (if is_absolute b then b else Path (is_absolute a) (parts a @ parts b))"

definition path_parent :: "path \<Rightarrow> path" where
  "path_parent p = Path (is_absolute p) (butlast (parts p))"

definition read_text :: "filesystem \<Rightarrow> path \<Rightarrow> error + pystr" where
  "read_text fs p =
     (case fs p of
        None \<Rightarrow> Inl FileNotFoundError
      | Some Dir \<Rightarrow> Inl OSError
      | Some (File s) \<Rightarrow> Inr s)"

definition write_text :: "filesystem \<Rightarrow> path \<Rightarrow> pystr \<Rightarrow> error + filesystem" where
  "write_text fs p s =
     (if fs p = Some Dir then Inl OSError
      else if fs (path_parent p) \<noteq> Some Dir then Inl FileNotFoundError
      else Inr (fs(p \<mapsto> File s)))"

definition extract_class_info :: "env \<Rightarrow> filesystem \<Rightarrow> path \<Rightarrow> error + hierarchy_map" where
  "extract_class_info ev fs file_path =
     (case read_text fs file_path of
        Inl e \<Rightarrow> Inl e
      | Inr source_code \<Rightarrow>
          (case encode_utf8 source_code of
             Inl e \<Rightarrow> Inl e
           | Inr bs \<Rightarrow>
               (case ts_parse ev bs of
                  Inl e \<Rightarrow> Inl e
                | Inr root_node \<Rightarrow>
                    let package_name = scanner_extract_package_name (children root_node) source_code;
                        class_nodes = find_nodes_by_type root_node ''class_declaration''
                    in Inr (class_info_loop source_code package_name class_nodes []))))"

text \<open>The loop of \<open>build_project_map\<close> over the files: a failing file is skipped.\<close>

fun scan_files :: "env \<Rightarrow> filesystem \<Rightarrow> path list \<Rightarrow> hierarchy_map \<Rightarrow> hierarchy_map" where
  "scan_files ev fs [] hierarchy_map = hierarchy_map"
| "scan_files ev fs (java_file # rest) hierarchy_map =
     (case extract_class_info ev fs java_file of
        Inl e \<Rightarrow> scan_files ev fs rest hierarchy_map
      | Inr class_info \<Rightarrow> scan_files ev fs rest (dict_update hierarchy_map class_info))"

definition build_project_map ::
  "env \<Rightarrow> filesystem \<Rightarrow> path \<Rightarrow> path \<Rightarrow> error + filesystem \<times> hierarchy_map" where
  "build_project_map ev fs root_path output_file =
     (if fs root_path = None then Inl FileNotFoundError
      else
        let java_files = rglob_java ev fs root_path;
            hierarchy_map = scan_files ev fs java_files [];
            output_path = (if is_absolute output_file then output_file
                           else path_join root_path output_file)
        in case write_text fs output_path (json_dump ev hierarchy_map) of
             Inl e \<Rightarrow> Inl e
           | Inr fs' \<Rightarrow> Inr (fs', hierarchy_map))"

section \<open>JavaCodeParser (java_parser.py)\<close>

fun parser_extract_package_name :: "node list \<Rightarrow> pystr \<Rightarrow> pystr" where
  "parser_extract_package_name [] source_code = py ''None''"
| "parser_extract_package_name (child # rest) source_code =
     (if ntype child = ''package_declaration'' then
        (case find (\<lambda>pc. ntype pc \<in> {''scoped_identifier'', ''identifier''}) (children child) of
           Some pc \<Rightarrow> node_source source_code pc
         | None \<Rightarrow>
             strip (remove_all (py '';'')
                      (remove_all (py ''package'') (node_source source_code child))))
      else parser_extract_package_name rest source_code)"

definition parser_get_class_name :: "node \<Rightarrow> pystr" where
  "parser_get_class_name class_node =
     (case find (\<lambda>c. ntype c = ''identifier'') (children class_node) of
        Some c \<Rightarrow> node_text c
      | None \<Rightarrow> py ''UnknownClass'')"

definition extract_fields :: "node \<Rightarrow> pystr \<Rightarrow> pystr list" where
  "extract_fields class_node source_code =
     (case find (\<lambda>c. ntype c = ''class_body'') (children class_node) of
        None \<Rightarrow> []
      | Some class_body \<Rightarrow>
          map (\<lambda>child. join (py '' '') (split_ws (strip (node_source source_code child))))
            (filter (\<lambda>child. ntype child = ''field_declaration'') (children class_body)))"

subsection \<open>Inherited methods and the class context\<close>

text \<open>The two-step lookup of \<open>_get_inherited_methods\<close>: the exact key, else the first
  entry, in the order of the map, whose \<open>simple_name\<close> is the parent or whose key ends
  in a dot and the parent.\<close>

definition lookup_parent :: "hierarchy_map \<Rightarrow> pystr \<Rightarrow> class_record option" where
  "lookup_parent hm parent_class =
     (case map_of hm parent_class of
        Some info \<Rightarrow> Some info
      | None \<Rightarrow>
          map_option snd
            (find (\<lambda>(class_name, info).
                     simple_name info = parent_class \<or>
                     endswith class_name (py ''.'' @ parent_class)) hm))"

text \<open>\<open>_get_inherited_methods\<close> calls itself once per ancestor and has no guard against a
  cycle of parents; the first argument is the number of stack frames Python still
  allows, and the call raises \<open>RecursionError\<close> when none is left.\<close>

fun get_inherited_methods :: "nat \<Rightarrow> hierarchy_map \<Rightarrow> pystr \<Rightarrow> error + pystr list" where
  "get_inherited_methods 0 hm parent_class = Inl RecursionError"
| "get_inherited_methods (Suc frames) hm parent_class =
     (if hm = [] then Inr []
      else case lookup_parent hm parent_class of
             None \<Rightarrow> Inr []
           | Some parent_info \<Rightarrow>
               if truthy (parent parent_info) then
                 (case get_inherited_methods frames hm (the (parent parent_info)) of
                    Inl e \<Rightarrow> Inl e
                  | Inr grandparent_methods \<Rightarrow> Inr (methods parent_info @ grandparent_methods))
               else Inr (methods parent_info))"

definition base_context :: "pystr \<Rightarrow> pystr \<Rightarrow> pystr list \<Rightarrow> pystr" where
  "base_context package_name class_name field_texts =
     (let package_str = (if package_name \<noteq> [] then py ''Package: '' @ package_name
                         else py ''Package: None'')
      in if field_texts \<noteq> []
         then package_str @ py '', Class: '' @ class_name @ py '', Fields: '' @
              join (py ''; '') field_texts
         else package_str @ py '', Class: '' @ class_name @ py '', Fields: None'')"

definition format_class_context ::
  "nat \<Rightarrow> hierarchy_map \<Rightarrow> pystr \<Rightarrow> pystr \<Rightarrow> pystr list \<Rightarrow> pystr option \<Rightarrow> error + pystr" where
  "format_class_context frames hm package_name class_name field_texts parent_class =
     (let context = base_context package_name class_name field_texts
      in if truthy parent_class then
           (let context = context @ py '', Extends: '' @ the parent_class
            in case get_inherited_methods frames hm (the parent_class) of
                 Inl e \<Rightarrow> Inl e
               | Inr inherited_methods \<Rightarrow>
                   if inherited_methods \<noteq> []
                   then Inr (context @ py '', Inherited Methods: ['' @
                             join (py '', '') inherited_methods @ py '']'')
                   else Inr context)
         else Inr context)"

subsection \<open>Methods and constructors\<close>

definition is_public_method :: "node \<Rightarrow> pystr \<Rightarrow> bool" where
  "is_public_method method_node source_code =
     (case find (\<lambda>c. ntype c = ''modifiers'') (children method_node) of
        Some c \<Rightarrow> contains (node_source source_code c) (py ''public'')
      | None \<Rightarrow> False)"

definition parameter_type_nodes :: "string list" where
  "parameter_type_nodes =
     [''type_identifier'', ''integral_type'', ''floating_point_type'', ''boolean_type'',
      ''generic_type'', ''array_type'', ''scoped_type_identifier'', ''void_type'']"

text \<open>The loop over the children of one formal parameter, with its variables
  \<open>param_type\<close> and \<open>param_name\<close>.\<close>

fun param_facts :: "pystr \<Rightarrow> node list \<Rightarrow> pystr option \<Rightarrow> pystr option \<Rightarrow> pystr option \<times> pystr option" where
  "param_facts source_code [] param_type param_name = (param_type, param_name)"
| "param_facts source_code (pc # pcs) param_type param_name =
     (if ntype pc \<in> set parameter_type_nodes then
        param_facts source_code pcs (Some (strip (node_source source_code pc))) param_name
      else if ntype pc = ''identifier'' then
        param_facts source_code pcs param_type (Some (node_text pc))
      else param_facts source_code pcs param_type param_name)"

definition clean_type :: "pystr \<Rightarrow> pystr" where
  "clean_type param_type =
     strip (remove_all (py ''[]'') (strip (hd (split_on 60 param_type))))"

fun parameters_loop ::
  "pystr \<Rightarrow> node list \<Rightarrow> pystr list \<Rightarrow> pystr list \<Rightarrow> pystr list \<times> pystr list" where
  "parameters_loop source_code [] parameters parameter_types = (parameters, parameter_types)"
| "parameters_loop source_code (child # rest) parameters parameter_types =
     (if ntype child = ''formal_parameter'' then
        (case param_facts source_code (children child) None None of
           (param_type, param_name) \<Rightarrow>
             let parameter_types' =
                   (if truthy param_type then parameter_types @ [clean_type (the param_type)]
                    else parameter_types);
                 parameters' =
                   (if truthy param_type \<and> truthy param_name
                    then parameters @ [the param_type @ py '' '' @ the param_name]
                    else if truthy param_type then parameters @ [the param_type]
                    else parameters)
             in parameters_loop source_code rest parameters' parameter_types')
      else parameters_loop source_code rest parameters parameter_types)"

definition extract_parameters_with_types :: "node \<Rightarrow> pystr \<Rightarrow> pystr list \<times> pystr list" where
  "extract_parameters_with_types formal_params_node source_code =
     parameters_loop source_code (children formal_params_node) [] []"

definition primitives_and_common :: "pystr set" where
  "primitives_and_common = set (map py
     [''int'', ''Integer'', ''long'', ''Long'', ''short'', ''Short'',
      ''byte'', ''Byte'', ''float'', ''Float'', ''double'', ''Double'',
      ''boolean'', ''Boolean'', ''char'', ''Character'',
      ''void'', ''Void'',
      ''String'', ''Object'',
      ''List'', ''ArrayList'', ''Set'', ''HashSet'', ''Map'', ''HashMap'',
      ''Collection'', ''Iterable'', ''Iterator'',
      ''Optional'', ''Stream''])"

fun complex_loop :: "pystr list \<Rightarrow> pystr list \<Rightarrow> pystr list" where
  "complex_loop [] complex_types = complex_types"
| "complex_loop (param_type # rest) complex_types =
     (if param_type \<notin> primitives_and_common
      then complex_loop rest (complex_types @ [param_type])
      else complex_loop rest complex_types)"

fun unique_loop :: "pystr list \<Rightarrow> pystr set \<Rightarrow> pystr list \<Rightarrow> pystr list" where
  "unique_loop [] seen unique_complex_types = unique_complex_types"
| "unique_loop (t # rest) seen unique_complex_types =
     (if t \<notin> seen then unique_loop rest (insert t seen) (unique_complex_types @ [t])
      else unique_loop rest seen unique_complex_types)"

definition filter_complex_types :: "pystr list \<Rightarrow> pystr list" where
  "filter_complex_types parameter_types =
     unique_loop (complex_loop parameter_types []) {} []"

definition is_empty_method :: "pystr \<Rightarrow> bool" where
  "is_empty_method method_body =
     (let body = strip method_body;
          body = (if startswith body (py ''{'') \<and> endswith body (py ''}'')
                  then strip (slice body 1 (length body - 1)) else body)
      in if body = [] then True
         else
           let lines = map strip (split_on 10 body);
               non_comment_lines =
                 filter (\<lambda>line. line \<noteq> [] \<and> \<not> startswith line (py ''//'') \<and>
                                \<not> startswith line (py ''/*'') \<and> \<not> startswith line (py ''*''))
                   lines
           in length non_comment_lines = 0)"

text \<open>The variables of the loop of \<open>_extract_method_info\<close> over the children of a
  declaration, and the record it returns; \<open>parse_file\<close> adds the id.\<close>

record method_vars =
  mv_method_name :: "pystr option"
  mv_method_body :: "pystr option"
  mv_modifiers :: "pystr list"
  mv_return_type :: "pystr option"
  mv_parameters :: "pystr list"
  mv_parameter_types :: "pystr list"

record method_info =
  method_name :: pystr
  method_signature :: pystr
  method_body :: pystr
  class_context :: pystr
  dependency_types :: "pystr list"

record chunk = method_info +
  chunk_id :: pystr

definition return_type_nodes :: "string list" where
  "return_type_nodes =
     [''type_identifier'', ''void_type'', ''integral_type'', ''floating_point_type'',
      ''boolean_type'', ''generic_type'', ''array_type'', ''scoped_type_identifier'']"

fun method_children_loop :: "pystr \<Rightarrow> node list \<Rightarrow> method_vars \<Rightarrow> method_vars" where
  "method_children_loop source_code [] v = v"
| "method_children_loop source_code (child # rest) v =
     method_children_loop source_code rest
       (if ntype child = ''modifiers'' then
          v\<lparr>mv_modifiers := split_ws (node_source source_code child)\<rparr>
        else if ntype child = ''identifier'' then
          v\<lparr>mv_method_name := Some (node_text child)\<rparr>
        else if ntype child \<in> set return_type_nodes then
          v\<lparr>mv_return_type := Some (strip (node_source source_code child))\<rparr>
        else if ntype child = ''formal_parameters'' then
          (case extract_parameters_with_types child source_code of
             (parameters, parameter_types) \<Rightarrow>
               v\<lparr>mv_parameters := parameters, mv_parameter_types := parameter_types\<rparr>)
        else if ntype child \<in> {''block'', ''constructor_body''} then
          v\<lparr>mv_method_body := Some (strip (node_source source_code child))\<rparr>
        else v)"

definition initial_method_vars :: method_vars where
  "initial_method_vars =
     \<lparr>mv_method_name = None, mv_method_body = None, mv_modifiers = [],
      mv_return_type = None, mv_parameters = [], mv_parameter_types = []\<rparr>"

definition extract_method_info ::
  "node \<Rightarrow> pystr \<Rightarrow> pystr \<Rightarrow> pystr \<Rightarrow> bool \<Rightarrow> method_info option" where
  "extract_method_info method_node source_code class_ctx class_name is_constructor =
     (let v = method_children_loop source_code (children method_node) initial_method_vars
      in if \<not> is_constructor \<and> \<not> truthy (mv_method_name v) then None
         else
           let name = (if is_constructor then py ''<Constructor>'' else the (mv_method_name v));
               return_type = (if is_constructor then None else mv_return_type v);
               body = (if truthy (mv_method_body v) then the (mv_method_body v)
                       else strip (node_source source_code method_node));
               deps = filter_complex_types (mv_parameter_types v);
               modifiers_str = join (py '' '') (mv_modifiers v);
               params_str = join (py '', '') (mv_parameters v);
               signature_parts =
                 (if modifiers_str \<noteq> [] then [modifiers_str] else []) @
                 (if is_constructor
                  then [py ''<Constructor>'', class_name @ py ''('' @ params_str @ py '')'']
                  else [if truthy return_type then the return_type else py ''void'',
                        name @ py ''('' @ params_str @ py '')''])
           in Some \<lparr>method_name = name,
                    method_signature = join (py '' '') signature_parts,
                    method_body = body,
                    class_context = class_ctx,
                    dependency_types = deps\<rparr>)"

subsection \<open>\<open>parse_file\<close>\<close>

text \<open>An exception raised for one declaration leaves \<open>parse_file\<close>: the results so far
  are lost and the first error is the outcome.\<close>

fun collect :: "('a \<Rightarrow> error + 'b list) \<Rightarrow> 'a list \<Rightarrow> error + 'b list" where
  "collect f [] = Inr []"
| "collect f (x # xs) =
     (case f x of
        Inl e \<Rightarrow> Inl e
      | Inr ys \<Rightarrow> (case collect f xs of Inl e \<Rightarrow> Inl e | Inr zs \<Rightarrow> Inr (ys @ zs)))"

text \<open>What one method or constructor declaration adds to the results: nothing, or one
  chunk.\<close>

definition declaration_chunks ::
  "pystr \<Rightarrow> pystr \<Rightarrow> pystr \<Rightarrow> bool \<Rightarrow> node \<Rightarrow> error + chunk list" where
  "declaration_chunks source_code class_ctx class_name is_constructor method_node =
     (if is_public_method method_node source_code then
        (case extract_method_info method_node source_code class_ctx class_name is_constructor of
           None \<Rightarrow> Inr []
         | Some info \<Rightarrow>
             if is_empty_method (method_body info) then Inr []
             else (case generate_method_id class_ctx (method_signature info) of
                     Inl e \<Rightarrow> Inl e
                   | Inr i \<Rightarrow> Inr [method_info.extend info \<lparr>chunk_id = i\<rparr>]))
      else Inr [])"

definition class_chunks ::
  "nat \<Rightarrow> hierarchy_map \<Rightarrow> pystr \<Rightarrow> pystr \<Rightarrow> node \<Rightarrow> error + chunk list" where
  "class_chunks frames hm source_code package_name class_node =
     (let class_name = parser_get_class_name class_node;
          field_texts = extract_fields class_node source_code;
          parent_class = get_parent_class class_node source_code
      in case format_class_context frames hm package_name class_name field_texts parent_class of
           Inl e \<Rightarrow> Inl e
         | Inr class_ctx \<Rightarrow>
             (case collect (declaration_chunks source_code class_ctx class_name False)
                     (find_nodes_by_type class_node ''method_declaration'') of
                Inl e \<Rightarrow> Inl e
              | Inr ms \<Rightarrow>
                  (case collect (declaration_chunks source_code class_ctx class_name True)
                          (find_nodes_by_type class_node ''constructor_declaration'') of
                     Inl e \<Rightarrow> Inl e
                   | Inr cs \<Rightarrow> Inr (ms @ cs))))"

definition parse_source ::
  "nat \<Rightarrow> hierarchy_map \<Rightarrow> pystr \<Rightarrow> node \<Rightarrow> error + chunk list" where
  "parse_source frames hm source_code root_node =
     (let package_name = parser_extract_package_name (children root_node) source_code
      in collect (class_chunks frames hm source_code package_name)
           (find_nodes_by_type root_node ''class_declaration''))"

definition parse_file ::
  "env \<Rightarrow> nat \<Rightarrow> hierarchy_map \<Rightarrow> filesystem \<Rightarrow> path \<Rightarrow> error + chunk list" where
  "parse_file ev frames hm fs file_path =
     (if fs file_path = None then Inl FileNotFoundError
      else case read_text fs file_path of
             Inl e \<Rightarrow> Inl e
           | Inr source_code \<Rightarrow>
               (case encode_utf8 source_code of
                  Inl e \<Rightarrow> Inl e
                | Inr bs \<Rightarrow>
                    (case ts_parse ev bs of
                       Inl e \<Rightarrow> Inl e
                     | Inr root_node \<Rightarrow> parse_source frames hm source_code root_node)))"

section \<open>IngestionPipeline (main_ingest.py)\<close>

text \<open>
  The parser, the enrichment collaborator and the vector store are parameters of the
  pipeline.  The two collaborators act on a world outside the program (a remote model, a
  database), which is threaded through their calls; \<open>enrich_batch\<close> returns the enriched
  chunks or raises, \<open>add_batch\<close> returns or raises.  A parsed chunk is kept with the path
  of its file, as \<open>chunk['file_path']\<close> is set before it enters the buffer.
\<close>

record ('c, 'e, 'w) collaborators =
  parse :: "path \<Rightarrow> error + 'c list"
  enrich_batch :: "'w \<Rightarrow> (path \<times> 'c) list \<Rightarrow> 'w \<times> (error + 'e list)"
  add_batch :: "'w \<Rightarrow> 'e list \<Rightarrow> 'w \<times> error option"
  file_path_of :: "'e \<Rightarrow> path"

record stats =
  files_processed :: nat
  files_failed :: nat
  chunks_indexed :: nat
  total_files :: nat

text \<open>
  The state of a run: the two local buffers of \<open>phase2_ingestion_loop\<close>, the counters,
  the error log written by \<open>log_error\<close>, the world of the collaborators, and a record of
  the calls made to them: the argument of every \<open>enrich_batch\<close> call, the result of every
  call that returned, and the argument of every \<open>add_batch\<close> call.
\<close>

record ('c, 'e, 'w) pipeline =
  buffer :: "(path \<times> 'c) list"
  all_enriched_chunks :: "'e list"
  counters :: stats
  error_log :: "(path \<times> error) list"
  world :: 'w
  enrich_calls :: "(path \<times> 'c) list list"
  enrich_results :: "'e list list"
  write_calls :: "'e list list"

definition init_pipeline :: "'w \<Rightarrow> ('c, 'e, 'w) pipeline" where
  "init_pipeline w =
     \<lparr>buffer = [], all_enriched_chunks = [],
      counters = \<lparr>files_processed = 0, files_failed = 0, chunks_indexed = 0, total_files = 0\<rparr>,
      error_log = [], world = w, enrich_calls = [], enrich_results = [], write_calls = []\<rparr>"

definition flush_buffer ::
  "('c, 'e, 'w) collaborators \<Rightarrow> ('c, 'e, 'w) pipeline \<Rightarrow> (path \<times> 'c) list \<Rightarrow>
   ('c, 'e, 'w) pipeline \<times> 'e list" where
  "flush_buffer cs st buf =
     (if buf = [] then (st, [])
      else case enrich_batch cs (world st) buf of
             (w, Inr enriched_chunks) \<Rightarrow>
               (st\<lparr>world := w, enrich_calls := enrich_calls st @ [buf],
                   enrich_results := enrich_results st @ [enriched_chunks]\<rparr>,
                enriched_chunks)
           | (w, Inl e) \<Rightarrow>
               (st\<lparr>world := w, enrich_calls := enrich_calls st @ [buf],
                   error_log := error_log st @ map (\<lambda>chunk. (fst chunk, e)) buf\<rparr>,
                []))"

definition write_to_db_sequential ::
  "('c, 'e, 'w) collaborators \<Rightarrow> ('c, 'e, 'w) pipeline \<Rightarrow> 'e list \<Rightarrow> ('c, 'e, 'w) pipeline" where
  "write_to_db_sequential cs st enriched_chunks =
     (if enriched_chunks = [] then st
      else case add_batch cs (world st) enriched_chunks of
             (w, None) \<Rightarrow>
               st\<lparr>world := w, write_calls := write_calls st @ [enriched_chunks],
                  counters := (counters st)
                    \<lparr>chunks_indexed := chunks_indexed (counters st) + length enriched_chunks\<rparr>\<rparr>
           | (w, Some e) \<Rightarrow>
               st\<lparr>world := w, write_calls := write_calls st @ [enriched_chunks],
                  error_log := error_log st @
                    map (\<lambda>chunk. (file_path_of cs chunk, e)) enriched_chunks\<rparr>)"

text \<open>The body of the loop over the files, for one file.\<close>

definition process_file ::
  "('c, 'e, 'w) collaborators \<Rightarrow> int \<Rightarrow> ('c, 'e, 'w) pipeline \<Rightarrow> path \<Rightarrow> ('c, 'e, 'w) pipeline" where
  "process_file cs batch_size st file_path =
     (case parse cs file_path of
        Inl e \<Rightarrow>
          st\<lparr>error_log := error_log st @ [(file_path, e)],
             counters := (counters st)\<lparr>files_failed := files_failed (counters st) + 1\<rparr>\<rparr>
      | Inr chunks \<Rightarrow>
          let st1 = st\<lparr>buffer := buffer st @ map (Pair file_path) chunks,
                      counters := (counters st)
                        \<lparr>files_processed := files_processed (counters st) + 1\<rparr>\<rparr>
          in if int (length (buffer st1)) \<ge> batch_size then
               (case flush_buffer cs st1 (buffer st1) of
                  (st2, enriched) \<Rightarrow>
                    let st3 = st2\<lparr>all_enriched_chunks := all_enriched_chunks st2 @ enriched,
                                 buffer := []\<rparr>
                    in if int (length (all_enriched_chunks st3)) \<ge> batch_size * 5
                       then (write_to_db_sequential cs st3 (all_enriched_chunks st3))
                              \<lparr>all_enriched_chunks := []\<rparr>
                       else st3)
             else st1)"

text \<open>The first statements of \<open>phase2_ingestion_loop\<close>: two empty buffers, and the
  number of files in the counters.\<close>

definition start_run :: "('c, 'e, 'w) pipeline \<Rightarrow> path list \<Rightarrow> ('c, 'e, 'w) pipeline" where
  "start_run st java_files =
     st\<lparr>buffer := [], all_enriched_chunks := [],
        counters := (counters st)\<lparr>total_files := length java_files\<rparr>\<rparr>"

definition phase2_ingestion_loop ::
  "('c, 'e, 'w) collaborators \<Rightarrow> int \<Rightarrow> ('c, 'e, 'w) pipeline \<Rightarrow> path list \<Rightarrow>
   ('c, 'e, 'w) pipeline" where
  "phase2_ingestion_loop cs batch_size st java_files =
     (let st1 = foldl (process_file cs batch_size) (start_run st java_files) java_files;
          st2 = (if buffer st1 \<noteq> [] then
                   (case flush_buffer cs st1 (buffer st1) of
                      (s, enriched) \<Rightarrow>
                        s\<lparr>all_enriched_chunks := all_enriched_chunks s @ enriched\<rparr>)
                 else st1)
      in if all_enriched_chunks st2 \<noteq> []
         then write_to_db_sequential cs st2 (all_enriched_chunks st2)
         else st2)"

text \<open>The chunks parsed from a list of files, each with the path of its file: nothing for
  a file whose parsing raised.\<close>

definition parsed_chunks :: "('c, 'e, 'w) collaborators \<Rightarrow> path list \<Rightarrow> (path \<times> 'c) list" where
  "parsed_chunks cs files =
     concat (map (\<lambda>f. case parse cs f of Inl e \<Rightarrow> [] | Inr chunks \<Rightarrow> map (Pair f) chunks) files)"

text \<open>Two properties of a state that every iteration of the loop keeps: what has been
  written and what waits in the accumulation buffer is together what enrichment has
  returned; and both buffers are empty or below their thresholds, while every write made
  so far was of at least five times the batch size.\<close>

definition accounted :: "('c, 'e, 'w) pipeline \<Rightarrow> bool" where
  "accounted st =
     (concat (write_calls st) @ all_enriched_chunks st = concat (enrich_results st))"

definition below_threshold :: "int \<Rightarrow> ('c, 'e, 'w) pipeline \<Rightarrow> bool" where
  "below_threshold batch_size st =
     ((buffer st = [] \<or> int (length (buffer st)) < batch_size) \<and>
      (all_enriched_chunks st = [] \<or> int (length (all_enriched_chunks st)) < batch_size * 5) \<and>
      list_all (\<lambda>c. int (length c) \<ge> batch_size * 5) (write_calls st))"

text \<open>
  To observe what a run passes to its collaborators, a pair of collaborators is wrapped
  so that each call of \<open>enrich_batch\<close> and of \<open>add_batch\<close> appends its argument and
  its outcome to a list kept in the world.  The wrapped collaborators return what the
  original ones return; the pipeline cannot tell them apart.
\<close>

datatype ('c, 'e) call =
    Enrich "(path \<times> 'c) list" "error + 'e list"
  | Store "'e list" "error option"

definition recording ::
  "('c, 'e, 'w) collaborators \<Rightarrow> ('c, 'e, 'w \<times> ('c, 'e) call list) collaborators" where
  "recording cs =
     \<lparr>parse = parse cs,
      enrich_batch = (\<lambda>wc buf. case enrich_batch cs (fst wc) buf of
                        (w, r) \<Rightarrow> ((w, snd wc @ [Enrich buf r]), r)),
      add_batch = (\<lambda>wc en. case add_batch cs (fst wc) en of
                        (w, r) \<Rightarrow> ((w, snd wc @ [Store en r]), r)),
      file_path_of = file_path_of cs\<rparr>"

text \<open>What one call received from the pipeline, and what an enrichment call gave back.\<close>

fun sent_to_enrichment :: "('c, 'e) call \<Rightarrow> (path \<times> 'c) list" where
  "sent_to_enrichment (Enrich buf r) = buf"
| "sent_to_enrichment (Store en r) = []"

fun returned_by_enrichment :: "('c, 'e) call \<Rightarrow> 'e list" where
  "returned_by_enrichment (Enrich buf (Inr enriched_chunks)) = enriched_chunks"
| "returned_by_enrichment (Enrich buf (Inl e)) = []"
| "returned_by_enrichment (Store en r) = []"

fun storage_writes :: "('c, 'e) call list \<Rightarrow> 'e list list" where
  "storage_writes [] = []"
| "storage_writes (Store en r # calls) = en # storage_writes calls"
| "storage_writes (Enrich buf r # calls) = storage_writes calls"

text \<open>The calls made by a run of \<open>phase2_ingestion_loop\<close> from the state that
  \<open>__init__\<close> sets up, and the state after the first \<open>n\<close> files of the loop.\<close>

definition calls_of ::
  "('c, 'e, 'w) collaborators \<Rightarrow> int \<Rightarrow> 'w \<Rightarrow> path list \<Rightarrow> ('c, 'e) call list" where
  "calls_of cs batch_size w java_files =
     snd (world (phase2_ingestion_loop (recording cs) batch_size (init_pipeline (w, [])) java_files))"

definition after_files ::
  "('c, 'e, 'w) collaborators \<Rightarrow> int \<Rightarrow> 'w \<Rightarrow> path list \<Rightarrow> nat \<Rightarrow> ('c, 'e, 'w) pipeline" where
  "after_files cs batch_size w java_files n =
     foldl (process_file cs batch_size) (start_run (init_pipeline w) java_files) (take n java_files)"

text \<open>A state over the wrapped collaborators, seen without the list of calls.\<close>

definition without_calls ::
  "('c, 'e, 'w \<times> ('c, 'e) call list) pipeline \<Rightarrow> ('c, 'e, 'w) pipeline" where
  "without_calls st =
     \<lparr>buffer = buffer st, all_enriched_chunks = all_enriched_chunks st, counters = counters st,
      error_log = error_log st, world = fst (world st), enrich_calls = enrich_calls st,
      enrich_results = enrich_results st, write_calls = write_calls st\<rparr>"

text \<open>The list of calls and the record of calls kept in the state say the same.\<close>

definition calls_agree :: "('c, 'e, 'w \<times> ('c, 'e) call list) pipeline \<Rightarrow> bool" where
  "calls_agree st =
     (concat (map sent_to_enrichment (snd (world st))) = concat (enrich_calls st) \<and>
      concat (map returned_by_enrichment (snd (world st))) = concat (enrich_results st) \<and>
      storage_writes (snd (world st)) = write_calls st)"

section \<open>Byte offsets and character offsets\<close>

text \<open>
  tree-sitter parses the UTF-8 bytes of a file, and \<open>start_byte\<close> and \<open>end_byte\<close>
  count bytes, while \<open>source_code\<close> is the decoded string, indexed by code point.
  A slice \<open>source_code[node.start_byte:node.end_byte]\<close> is the text of the node when
  no character before the end of the node takes more than one byte, as in an ASCII file.
  \<open>offsets_agree\<close> says that it is so for a node and every node below it.
\<close>

fun subnodes :: "node \<Rightarrow> node list" where
  "subnodes (Node t s e x cs) = Node t s e x cs # concat (map subnodes cs)"

definition offsets_agree :: "pystr \<Rightarrow> node \<Rightarrow> bool" where
  "offsets_agree source_code root_node =
     list_all (\<lambda>n. node_source source_code n = node_text n) (subnodes root_node)"

subsection \<open>What the scanner records, stated on the tree\<close>

text \<open>A method declaration counts as public for the scanner when one of its modifiers
  nodes contains the text \<open>public\<close>; its name is the text of its last identifier
  child.\<close>

definition has_public_modifier :: "pystr \<Rightarrow> node \<Rightarrow> bool" where
  "has_public_modifier source_code m =
     list_ex (\<lambda>c. ntype c = ''modifiers'' \<and> contains (node_source source_code c) (py ''public''))
       (children m)"

definition declared_name :: "node \<Rightarrow> pystr option" where
  "declared_name m =
     (case filter (\<lambda>c. ntype c = ''identifier'') (children m) of
        [] \<Rightarrow> None
      | c # cs \<Rightarrow> Some (node_text (last (c # cs))))"

definition is_public_method_decl :: "pystr \<Rightarrow> node \<Rightarrow> bool" where
  "is_public_method_decl source_code m =
     (ntype m = ''method_declaration'' \<and> has_public_modifier source_code m \<and>
      truthy (declared_name m))"

text \<open>The class records of the files that were processed without an exception, in the
  order of the listing.\<close>

definition successful_infos :: "env \<Rightarrow> filesystem \<Rightarrow> path list \<Rightarrow> hierarchy_map list" where
  "successful_infos ev fs files =
     concat (map (\<lambda>f. case extract_class_info ev fs f of Inl e \<Rightarrow> [] | Inr ci \<Rightarrow> [ci]) files)"

text \<open>The same, read from the text of the nodes: a method declaration says that it is
  public when one of its modifiers nodes has \<open>public\<close> in its text.  The public
  method names of a class are the names of the method declarations of its body that say
  so and have a name, one entry per declaration, in the order of the declarations.\<close>

definition says_public :: "node \<Rightarrow> bool" where
  "says_public m =
     list_ex (\<lambda>c. ntype c = ''modifiers'' \<and> contains (node_text c) (py ''public'')) (children m)"

definition public_method_names :: "node \<Rightarrow> pystr list" where
  "public_method_names class_node =
     (case find (\<lambda>c. ntype c = ''class_body'') (children class_node) of
        None \<Rightarrow> []
      | Some class_body \<Rightarrow>
          map (the \<circ> declared_name)
            (filter (\<lambda>m. ntype m = ''method_declaration'' \<and> says_public m \<and>
                          truthy (declared_name m))
               (children class_body)))"

text \<open>Every entry of a file's class records is the record of one of the class
  declarations: it has the name of the class and lists its public method names.\<close>

definition records_of_classes :: "node list \<Rightarrow> hierarchy_map \<Rightarrow> bool" where
  "records_of_classes class_nodes class_info =
     list_all (\<lambda>entry.
        list_ex (\<lambda>class_node.
           scanner_get_class_name class_node = Some (simple_name (snd entry)) \<and>
           methods (snd entry) = public_method_names class_node) class_nodes) class_info"

subsection \<open>What the parser extracts, stated on the tree\<close>

text \<open>The declared type of a formal parameter is the stripped source text of its last
  type child.\<close>

definition declared_param_type :: "pystr \<Rightarrow> node \<Rightarrow> pystr option" where
  "declared_param_type source_code p =
     (case filter (\<lambda>c. ntype c \<in> set parameter_type_nodes) (children p) of
        [] \<Rightarrow> None
      | c # cs \<Rightarrow> Some (strip (node_source source_code (last (c # cs)))))"

definition declared_types :: "pystr \<Rightarrow> node \<Rightarrow> pystr list" where
  "declared_types source_code formal_params_node =
     map (\<lambda>p. the (declared_param_type source_code p))
       (filter (\<lambda>p. ntype p = ''formal_parameter'' \<and> truthy (declared_param_type source_code p))
          (children formal_params_node))"

text \<open>De-duplication that keeps the first occurrence of every element.\<close>

fun first_seen :: "'a list \<Rightarrow> 'a list" where
  "first_seen [] = []"
| "first_seen (x # xs) = x # first_seen (filter (\<lambda>y. y \<noteq> x) xs)"

text \<open>The formal parameters of a declaration: its last child of that type.\<close>

definition formal_parameters_of :: "node \<Rightarrow> node option" where
  "formal_parameters_of method_node =
     (case filter (\<lambda>c. ntype c = ''formal_parameters'') (children method_node) of
        [] \<Rightarrow> None
      | c # cs \<Rightarrow> Some (last (c # cs)))"

text \<open>The body without its braces, and its lines of code: the trimmed lines that are
  neither empty nor start with a comment marker.\<close>

definition brace_stripped :: "pystr \<Rightarrow> pystr" where
  "brace_stripped body_text =
     (let body = strip body_text
      in if startswith body (py ''{'') \<and> endswith body (py ''}'')
         then strip (slice body 1 (length body - 1)) else body)"

definition is_comment_line :: "pystr \<Rightarrow> bool" where
  "is_comment_line line =
     (startswith line (py ''//'') \<or> startswith line (py ''/*'') \<or> startswith line (py ''*''))"

definition code_lines :: "pystr \<Rightarrow> pystr list" where
  "code_lines body_text =
     filter (\<lambda>line. line \<noteq> [] \<and> \<not> is_comment_line line)
       (map strip (split_on 10 (brace_stripped body_text)))"

text \<open>The same, read from the text of the nodes.  The type of a formal parameter is the
  trimmed text of its last type child; the parameter types of a declaration are those of
  the formal parameters in its parameter list.  A type is cleaned by cutting it at the
  first \<open><\<close>, removing every \<open>[]\<close> and trimming; the dependency types are the
  cleaned types outside the exclusion set, each kept where it is first seen.\<close>

definition param_type_text :: "node \<Rightarrow> pystr option" where
  "param_type_text p =
     (case filter (\<lambda>c. ntype c \<in> set parameter_type_nodes) (children p) of
        [] \<Rightarrow> None
      | c # cs \<Rightarrow> Some (strip (node_text (last (c # cs)))))"

definition parameter_type_texts :: "node \<Rightarrow> pystr list" where
  "parameter_type_texts method_node =
     (case formal_parameters_of method_node of
        None \<Rightarrow> []
      | Some fp \<Rightarrow>
          map (the \<circ> param_type_text)
            (filter (\<lambda>p. ntype p = ''formal_parameter'' \<and> truthy (param_type_text p))
               (children fp)))"

definition strip_generics_and_arrays :: "pystr \<Rightarrow> pystr" where
  "strip_generics_and_arrays type_text =
     strip (remove_all (py ''[]'') (strip (takeWhile (\<lambda>c. c \<noteq> 60) type_text)))"

definition claimed_dependency_types :: "pystr list \<Rightarrow> pystr list" where
  "claimed_dependency_types type_texts =
     first_seen (filter (\<lambda>t. t \<notin> primitives_and_common)
                   (map strip_generics_and_arrays type_texts))"

text \<open>A declaration is public for the parser when its first modifiers node has
  \<open>public\<close> in its text.  The text taken as its body is the trimmed text of its last
  block or constructor body, or, when it has none or that text is empty, the trimmed text
  of the whole declaration.  It yields a chunk when it is public, has a name unless it is
  a constructor, and the text taken as its body has a line of code.\<close>

definition declares_public :: "node \<Rightarrow> bool" where
  "declares_public m =
     (case find (\<lambda>c. ntype c = ''modifiers'') (children m) of
        Some c \<Rightarrow> contains (node_text c) (py ''public'')
      | None \<Rightarrow> False)"

definition body_text :: "node \<Rightarrow> pystr" where
  "body_text m =
     (case filter (\<lambda>c. ntype c \<in> {''block'', ''constructor_body''}) (children m) of
        [] \<Rightarrow> strip (node_text m)
      | c # cs \<Rightarrow>
          if strip (node_text (last (c # cs))) \<noteq> []
          then strip (node_text (last (c # cs)))
          else strip (node_text m))"

definition yields_chunk :: "bool \<Rightarrow> node \<Rightarrow> bool" where
  "yields_chunk is_constructor m =
     (declares_public m \<and> (is_constructor \<or> truthy (declared_name m)) \<and>
      code_lines (body_text m) \<noteq> [])"

text \<open>The names and bodies of the chunks of a file, in the order of \<open>parse_file\<close>:
  for every class declaration the method declarations found in it that yield a chunk,
  then the constructor declarations that do.\<close>

definition expected_chunks :: "node \<Rightarrow> (pystr \<times> pystr) list" where
  "expected_chunks root_node =
     concat (map (\<lambda>class_node.
        map (\<lambda>m. (the (declared_name m), body_text m))
          (filter (yields_chunk False) (find_nodes_by_type class_node ''method_declaration'')) @
        map (\<lambda>m. (py ''<Constructor>'', body_text m))
          (filter (yields_chunk True) (find_nodes_by_type class_node ''constructor_declaration'')))
       (find_nodes_by_type root_node ''class_declaration''))"

definition names_and_bodies :: "chunk list \<Rightarrow> (pystr \<times> pystr) list" where
  "names_and_bodies chunks = map (\<lambda>c. (method_name c, method_body c)) chunks"

text \<open>The parent that a class declaration names: the text of the first type in its
  extends clause, cut at the first \<open><\<close> and trimmed.\<close>

definition declared_parent :: "node \<Rightarrow> pystr option" where
  "declared_parent class_node =
     (case concat (map (\<lambda>c. filter (\<lambda>sc. ntype sc \<in> set superclass_types) (children c))
                     (filter (\<lambda>c. ntype c = ''superclass'') (children class_node))) of
        [] \<Rightarrow> None
      | sc # rest \<Rightarrow> Some (strip (takeWhile (\<lambda>ch. ch \<noteq> 60) (node_text sc))))"

text \<open>How a parent name resolves in the hierarchy map: to the record under the name as
  key, else to the record of the first entry, in the order of the map, whose
  \<open>simple_name\<close> is the name or whose key ends in a dot and the name.\<close>

definition resolve :: "hierarchy_map \<Rightarrow> pystr \<Rightarrow> class_record option" where
  "resolve hm p =
     (case filter (\<lambda>entry. fst entry = p) hm of
        entry # rest \<Rightarrow> Some (snd entry)
      | [] \<Rightarrow>
          (case filter (\<lambda>entry. simple_name (snd entry) = p \<or>
                                 endswith (fst entry) (py ''.'' @ p)) hm of
             entry # rest \<Rightarrow> Some (snd entry)
           | [] \<Rightarrow> None))"

text \<open>The ancestor records of a parent name: the record the name resolves to, then the
  ancestor records of that record's own parent; the list ends at a name that does not
  resolve or at a record without a parent.\<close>

inductive ancestor_records :: "hierarchy_map \<Rightarrow> pystr \<Rightarrow> class_record list \<Rightarrow> bool" where
  not_in_map: "resolve hm p = None \<Longrightarrow> ancestor_records hm p []"
| last_ancestor: "resolve hm p = Some info \<Longrightarrow> \<not> truthy (parent info) \<Longrightarrow>
     ancestor_records hm p [info]"
| next_ancestor: "resolve hm p = Some info \<Longrightarrow> truthy (parent info) \<Longrightarrow>
     ancestor_records hm (the (parent info)) infos \<Longrightarrow> ancestor_records hm p (info # infos)"

code_pred ancestor_records .

text \<open>What the class context says about inheritance: the parent, and then, unless no
  method is recorded along the ancestors, their methods, the parent's first.\<close>

definition inheritance_clause :: "pystr \<Rightarrow> class_record list \<Rightarrow> pystr" where
  "inheritance_clause p infos =
     py '', Extends: '' @ p @
     (if concat (map methods infos) = [] then []
      else py '', Inherited Methods: ['' @ join (py '', '') (concat (map methods infos)) @ py '']'')"

text \<open>The chunks of a result; none when it is an error.\<close>

definition chunks_of :: "error + chunk list \<Rightarrow> chunk list" where
  "chunks_of r = (case r of Inl e \<Rightarrow> [] | Inr chunks \<Rightarrow> chunks)"

section \<open>A worked example\<close>

text \<open>The file \<open>Calc.java\<close>, with two public overloads of \<open>add\<close> and a
  package-private method without modifiers, and its syntax tree.\<close>

definition calc_source :: pystr where
  "calc_source = py ''class Calc { public int add(int a) { return a; } public int add(int a, int b) { return a + b; } int sub(int a) { return 0 - a; } }''"

definition calc_add1 :: node where
  "calc_add1 =
    Node ''method_declaration'' 13 48 (py ''public int add(int a) { return a; }'')
     [
       Node ''modifiers'' 13 19 (py ''public'') [],
       Node ''integral_type'' 20 23 (py ''int'') [],
       Node ''identifier'' 24 27 (py ''add'') [],
       Node ''formal_parameters'' 27 34 (py ''(int a)'')
        [
          Node ''formal_parameter'' 28 33 (py ''int a'')
           [
             Node ''integral_type'' 28 31 (py ''int'') [],
             Node ''identifier'' 32 33 (py ''a'') []]],
       Node ''block'' 35 48 (py ''{ return a; }'') []]"

definition calc_add2 :: node where
  "calc_add2 =
    Node ''method_declaration'' 49 95 (py ''public int add(int a, int b) { return a + b; }'')
     [
       Node ''modifiers'' 49 55 (py ''public'') [],
       Node ''integral_type'' 56 59 (py ''int'') [],
       Node ''identifier'' 60 63 (py ''add'') [],
       Node ''formal_parameters'' 63 77 (py ''(int a, int b)'')
        [
          Node ''formal_parameter'' 64 69 (py ''int a'')
           [
             Node ''integral_type'' 64 67 (py ''int'') [],
             Node ''identifier'' 68 69 (py ''a'') []],
          Node ''formal_parameter'' 71 76 (py ''int b'')
           [
             Node ''integral_type'' 71 74 (py ''int'') [],
             Node ''identifier'' 75 76 (py ''b'') []]],
       Node ''block'' 78 95 (py ''{ return a + b; }'') []]"

definition calc_sub :: node where
  "calc_sub =
    Node ''method_declaration'' 96 128 (py ''int sub(int a) { return 0 - a; }'')
     [
       Node ''integral_type'' 96 99 (py ''int'') [],
       Node ''identifier'' 100 103 (py ''sub'') [],
       Node ''formal_parameters'' 103 110 (py ''(int a)'')
        [
          Node ''formal_parameter'' 104 109 (py ''int a'')
           [
             Node ''integral_type'' 104 107 (py ''int'') [],
             Node ''identifier'' 108 109 (py ''a'') []]],
       Node ''block'' 111 128 (py ''{ return 0 - a; }'') []]"

definition calc_body :: node where
  "calc_body = Node ''class_body'' 11 130 (drop 11 calc_source) [calc_add1, calc_add2, calc_sub]"

definition calc_class :: node where
  "calc_class = Node ''class_declaration'' 0 130 calc_source
     [Node ''identifier'' 6 10 (py ''Calc'') [], calc_body]"

definition calc_root :: node where
  "calc_root = Node ''program'' 0 130 calc_source [calc_class]"

text \<open>A project directory holding \<open>Calc.java\<close> and a directory whose name ends in
  \<open>.java\<close> (matched by the listing, but not readable as a file).\<close>

definition demo_root :: path where
  "demo_root = Path True [py ''proj'']"

definition demo_calc_path :: path where
  "demo_calc_path = Path True [py ''proj'', py ''Calc.java'']"

definition demo_dir_path :: path where
  "demo_dir_path = Path True [py ''proj'', py ''gen.java'']"

definition demo_out :: path where
  "demo_out = Path False [py ''project_hierarchy.json'']"

definition demo_out_path :: path where
  "demo_out_path = Path True [py ''proj'', py ''project_hierarchy.json'']"

definition demo_fs :: filesystem where
  "demo_fs = [demo_root \<mapsto> Dir, demo_calc_path \<mapsto> File calc_source, demo_dir_path \<mapsto> Dir]"

definition demo_env :: env where
  "demo_env =
     \<lparr>ts_parse = (\<lambda>bs. Inr calc_root),
      rglob_java = (\<lambda>fs root. [demo_dir_path, demo_calc_path]),
      json_dump = (\<lambda>hm. join (py '','') (map fst hm))\<rparr>"

definition calc_record :: class_record where
  "calc_record = \<lparr>parent = None, methods = [py ''add'', py ''add''], simple_name = py ''Calc''\<rparr>"

text \<open>The file \<open>Ledger.java\<close>: a method with two parameters of one custom type, a
  method with an empty body and only primitive and common parameter types, a method that
  returns a value, and a method whose body is a comment.\<close>

definition ledger_source :: pystr where
  "ledger_source = py ''class Ledger { public void move(Transaction t1, Transaction t2) { t1.apply(t2); } public void log(int x, String s) { } public int one() { return 1; } public void note() {'' @ [10] @ py '' // comment'' @ [10] @ py '' } }''"

definition ledger_move :: node where
  "ledger_move =
    Node ''method_declaration'' 15 81 (py ''public void move(Transaction t1, Transaction t2) { t1.apply(t2); }'')
     [
       Node ''modifiers'' 15 21 (py ''public'') [],
       Node ''void_type'' 22 26 (py ''void'') [],
       Node ''identifier'' 27 31 (py ''move'') [],
       Node ''formal_parameters'' 31 63 (py ''(Transaction t1, Transaction t2)'')
        [
          Node ''formal_parameter'' 32 46 (py ''Transaction t1'')
           [
             Node ''type_identifier'' 32 43 (py ''Transaction'') [],
             Node ''identifier'' 44 46 (py ''t1'') []],
          Node ''formal_parameter'' 48 62 (py ''Transaction t2'')
           [
             Node ''type_identifier'' 48 59 (py ''Transaction'') [],
             Node ''identifier'' 60 62 (py ''t2'') []]],
       Node ''block'' 64 81 (py ''{ t1.apply(t2); }'') []]"

definition ledger_log :: node where
  "ledger_log =
    Node ''method_declaration'' 82 118 (py ''public void log(int x, String s) { }'')
     [
       Node ''modifiers'' 82 88 (py ''public'') [],
       Node ''void_type'' 89 93 (py ''void'') [],
       Node ''identifier'' 94 97 (py ''log'') [],
       Node ''formal_parameters'' 97 114 (py ''(int x, String s)'')
        [
          Node ''formal_parameter'' 98 103 (py ''int x'')
           [
             Node ''integral_type'' 98 101 (py ''int'') [],
             Node ''identifier'' 102 103 (py ''x'') []],
          Node ''formal_parameter'' 105 113 (py ''String s'')
           [
             Node ''type_identifier'' 105 111 (py ''String'') [],
             Node ''identifier'' 112 113 (py ''s'') []]],
       Node ''block'' 115 118 (py ''{ }'') []]"

definition ledger_one :: node where
  "ledger_one =
    Node ''method_declaration'' 119 149 (py ''public int one() { return 1; }'')
     [
       Node ''modifiers'' 119 125 (py ''public'') [],
       Node ''integral_type'' 126 129 (py ''int'') [],
       Node ''identifier'' 130 133 (py ''one'') [],
       Node ''formal_parameters'' 133 135 (py ''()'') [],
       Node ''block'' 136 149 (py ''{ return 1; }'') []]"

definition ledger_note :: node where
  "ledger_note =
    Node ''method_declaration'' 150 185 (py ''public void note() {'' @ [10] @ py '' // comment'' @ [10] @ py '' }'')
     [
       Node ''modifiers'' 150 156 (py ''public'') [],
       Node ''void_type'' 157 161 (py ''void'') [],
       Node ''identifier'' 162 166 (py ''note'') [],
       Node ''formal_parameters'' 166 168 (py ''()'') [],
       Node ''block'' 169 185 (py ''{'' @ [10] @ py '' // comment'' @ [10] @ py '' }'') []]"

definition ledger_class :: node where
  "ledger_class = Node ''class_declaration'' 0 187 ledger_source
     [Node ''identifier'' 6 12 (py ''Ledger'') [],
      Node ''class_body'' 13 187 (drop 13 ledger_source)
        [ledger_move, ledger_log, ledger_one, ledger_note]]"

definition ledger_root :: node where
  "ledger_root = Node ''program'' 0 187 ledger_source [ledger_class]"

definition ledger_context :: pystr where
  "ledger_context = py ''Package: None, Class: Ledger, Fields: None''"

text \<open>A hierarchy map with \<open>Animal\<close>, \<open>Dog extends Animal\<close> and
  \<open>Puppy extends Dog\<close>, and one whose only class declares no public method.\<close>

definition animal_record :: class_record where
  "animal_record =
     \<lparr>parent = None,
      methods = [py ''eat'', py ''sleep'', py ''getName'', py ''makeSound''],
      simple_name = py ''Animal''\<rparr>"

definition dog_record :: class_record where
  "dog_record = \<lparr>parent = Some (py ''Animal''), methods = [py ''bark''], simple_name = py ''Dog''\<rparr>"

definition zoo_map :: hierarchy_map where
  "zoo_map = [(py ''zoo.Animal'', animal_record), (py ''zoo.Dog'', dog_record)]"

definition base_record :: class_record where
  "base_record = \<lparr>parent = None, methods = [], simple_name = py ''Base''\<rparr>"

definition marker_map :: hierarchy_map where
  "marker_map = [(py ''Base'', base_record)]"

text \<open>A run over five files with batch size 1: the second file fails to parse, the
  others give three, one, two and one chunks; enrichment returns a chunk for every chunk
  and the store accepts every write.\<close>

definition run_file :: "string \<Rightarrow> path" where
  "run_file name = Path True [py ''src'', py name]"

definition run_files :: "path list" where
  "run_files = map run_file [''A.java'', ''B.java'', ''C.java'', ''D.java'', ''E.java'']"

definition run_collaborators :: "(nat, nat, nat) collaborators" where
  "run_collaborators =
     \<lparr>parse = (\<lambda>p. if p = run_file ''A.java'' then Inr [1, 2, 3]
                    else if p = run_file ''B.java'' then Inl OSError
                    else if p = run_file ''C.java'' then Inr [4]
                    else if p = run_file ''D.java'' then Inr [5, 6]
                    else Inr [7]),
      enrich_batch = (\<lambda>w buf. (w + 1, Inr (map snd buf))),
      add_batch = (\<lambda>w en. (w + 1, None)),
      file_path_of = (\<lambda>e. run_file ''A.java'')\<rparr>"

definition run_result :: "(nat, nat, nat) pipeline" where
  "run_result = phase2_ingestion_loop run_collaborators 1 (init_pipeline 0) run_files"

text \<open>The file \<open>Pay.java\<close>: the name of the first parameter has a character that
  takes two bytes in UTF-8 (code point 233), so every byte offset after it is one more than
  the character offset.\<close>

definition pay_source :: pystr where
  "pay_source = py ''class Pay { public void pay(String caf'' @ [233] @ py '', Transaction t) { t.run(); } }''"

definition pay_parameters :: node where
  "pay_parameters =
    Node ''formal_parameters'' 27 56 (py ''(String caf'' @ [233] @ py '', Transaction t)'')
     [
       Node ''formal_parameter'' 28 40 (py ''String caf'' @ [233])
        [
          Node ''type_identifier'' 28 34 (py ''String'') [],
          Node ''identifier'' 35 40 (py ''caf'' @ [233]) []],
       Node ''formal_parameter'' 42 55 (py ''Transaction t'')
        [
          Node ''type_identifier'' 42 53 (py ''Transaction'') [],
          Node ''identifier'' 54 55 (py ''t'') []]]"

definition pay_method :: node where
  "pay_method =
    Node ''method_declaration'' 12 69 (py ''public void pay(String caf'' @ [233] @ py '', Transaction t) { t.run(); }'')
     [
       Node ''modifiers'' 12 18 (py ''public'') [],
       Node ''void_type'' 19 23 (py ''void'') [],
       Node ''identifier'' 24 27 (py ''pay'') [],
       pay_parameters,
       Node ''block'' 57 69 (py ''{ t.run(); }'') []]"

definition pay_class :: node where
  "pay_class =
    Node ''class_declaration'' 0 71 pay_source
     [Node ''identifier'' 6 9 (py ''Pay'') [],
      Node ''class_body'' 10 71 (drop 10 pay_source) [pay_method]]"

definition pay_root :: node where
  "pay_root = Node ''program'' 0 71 pay_source [pay_class]"

definition pay_context :: pystr where
  "pay_context = py ''Package: None, Class: Pay, Fields: None''"

text \<open>The file \<open>S.java\<close>: an abstract class with one public abstract method, a
  declaration without a block.\<close>

definition shape_source :: pystr where
  "shape_source = py ''abstract class S { public abstract int a(); }''"

definition shape_area :: node where
  "shape_area =
    Node ''method_declaration'' 19 43 (py ''public abstract int a();'')
     [
       Node ''modifiers'' 19 34 (py ''public abstract'') [],
       Node ''integral_type'' 35 38 (py ''int'') [],
       Node ''identifier'' 39 40 (py ''a'') [],
       Node ''formal_parameters'' 40 42 (py ''()'') []]"

definition shape_class :: node where
  "shape_class =
    Node ''class_declaration'' 0 45 shape_source
     [Node ''modifiers'' 0 8 (py ''abstract'') [],
      Node ''identifier'' 15 16 (py ''S'') [],
      Node ''class_body'' 17 45 (drop 17 shape_source) [shape_area]]"

definition shape_root :: node where
  "shape_root = Node ''program'' 0 45 shape_source [shape_class]"


text \<open>The file \<open>Dog.java\<close>: a class that extends \<open>Animal\<close>.\<close>

definition dog_source :: pystr where
  "dog_source = py ''class Dog extends Animal { public void bark() { run(); } }''"

definition dog_bark :: node where
  "dog_bark =
    Node ''method_declaration'' 27 56 (py ''public void bark() { run(); }'')
     [
       Node ''modifiers'' 27 33 (py ''public'') [],
       Node ''void_type'' 34 38 (py ''void'') [],
       Node ''identifier'' 39 43 (py ''bark'') [],
       Node ''formal_parameters'' 43 45 (py ''()'') [],
       Node ''block'' 46 56 (py ''{ run(); }'') []]"

definition dog_class :: node where
  "dog_class =
    Node ''class_declaration'' 0 58 dog_source
     [Node ''identifier'' 6 9 (py ''Dog'') [],
      Node ''superclass'' 10 24 (py ''extends Animal'')
       [
         Node ''type_identifier'' 18 24 (py ''Animal'') []],
      Node ''class_body'' 25 58 (drop 25 dog_source) [dog_bark]]"

definition dog_root :: node where
  "dog_root = Node ''program'' 0 58 dog_source [dog_class]"


text \<open>The file \<open>Puppy.java\<close>: a class that extends \<open>Dog\<close> and declares
  nothing.\<close>

definition puppy_source :: pystr where
  "puppy_source = py ''class Puppy extends Dog { }''"

definition puppy_class :: node where
  "puppy_class =
    Node ''class_declaration'' 0 27 puppy_source
     [Node ''identifier'' 6 11 (py ''Puppy'') [],
      Node ''superclass'' 12 23 (py ''extends Dog'')
       [
         Node ''type_identifier'' 20 23 (py ''Dog'') []],
      Node ''class_body'' 24 27 (py ''{ }'') []]"

text \<open>A file system that holds \<open>Ledger.java\<close>, and a parser that returns its
  tree.\<close>

definition ledger_path :: path where
  "ledger_path = Path True [py ''proj'', py ''Ledger.java'']"

definition ledger_fs :: filesystem where
  "ledger_fs = [ledger_path \<mapsto> File ledger_source]"

definition ledger_env :: env where
  "ledger_env =
     \<lparr>ts_parse = (\<lambda>bs. Inr ledger_root),
      rglob_java = (\<lambda>fs root. [ledger_path]),
      json_dump = (\<lambda>hm. join (py '','') (map fst hm))\<rparr>"

section \<open>Properties of the chunk identity\<close>


lemma encode_utf8_scalar:
  "(\<forall>c\<in>set s. is_scalar c) \<Longrightarrow> encode_utf8 s = Inr (concat (map utf8_char s))"
  by (induction s) auto

lemma encode_utf8_surrogate:
  "\<not> (\<forall>c\<in>set s. is_scalar c) \<Longrightarrow> encode_utf8 s = Inl UnicodeEncodeError"
  by (induction s) (auto split: sum.splits)

lemma hex_digit_range: "d < 16 \<Longrightarrow> is_hexdigit (hex_digit d)"
  by (auto simp: hex_digit_def is_hexdigit_def)

lemma nibble_lt: "unat ((w::w32) AND 0xF) < 16"
proof -
  have "w AND 0xF \<le> 0xF" by (rule word_and_le1)
  then have "unat (w AND 0xF) \<le> unat (0xF::w32)" by (simp add: word_le_nat_alt)
  then show ?thesis by simp
qed

lemma length_hex_word: "length (hex_word w) = 8"
  by (simp add: hex_word_def)

lemma set_hex_word: "c \<in> set (hex_word w) \<Longrightarrow> is_hexdigit c"
  unfolding hex_word_def using hex_digit_range [OF nibble_lt] by auto

lemma length_hexdigest: "length (hexdigest st) = 64"
  by (cases st rule: hexdigest.cases) (simp add: length_hex_word)

lemma set_hexdigest: "c \<in> set (hexdigest st) \<Longrightarrow> is_hexdigit c"
  by (cases st rule: hexdigest.cases) (auto dest: set_hex_word)

lemma utf8_sep: "concat (map utf8_char (py ''::'')) = [0x3A, 0x3A]"
  by (simp add: py_def utf8_char_def)

lemma sep_scalar: "c \<in> set (py ''::'') \<Longrightarrow> is_scalar c"
  by (auto simp: py_def is_scalar_def)

text \<open>
  C1.  The chunk id is a function of the class context and the signature.  On every pair
  of strings that can be encoded (no lone surrogate) it is the SHA-256 hex digest of the
  UTF-8 bytes of the class context, two colons and the signature; whenever an id is
  returned it has 64 lower-case hexadecimal digits; and the storage key function of
  \<open>VectorStore\<close> is the same function applied to package, two colons and class name.
\<close>

theorem generate_method_id_sha256:
  "((\<forall>c\<in>set (ctx @ sg). is_scalar c) \<longrightarrow>
      generate_method_id ctx sg =
        Inr (hexdigest (sha256 (concat (map utf8_char ctx) @ [0x3A, 0x3A] @
                                concat (map utf8_char sg)))))
   \<and> (\<forall>h. generate_method_id ctx sg = Inr h \<longrightarrow>
          length h = 64 \<and> (\<forall>c\<in>set h. is_hexdigit c))
   \<and> generate_id package class_name sg =
       generate_method_id (package @ py ''::'' @ class_name) sg"
proof (intro conjI impI allI)
  assume ok: "\<forall>c\<in>set (ctx @ sg). is_scalar c"
  then have "\<forall>c\<in>set (ctx @ py ''::'' @ sg). is_scalar c"
    using sep_scalar by auto
  then have "encode_utf8 (ctx @ py ''::'' @ sg) =
      Inr (concat (map utf8_char (ctx @ py ''::'' @ sg)))"
    by (rule encode_utf8_scalar)
  then show "generate_method_id ctx sg =
        Inr (hexdigest (sha256 (concat (map utf8_char ctx) @ [0x3A, 0x3A] @
                                concat (map utf8_char sg))))"
    by (simp add: generate_method_id_def utf8_sep del: encode_utf8.simps)
next
  fix h assume "generate_method_id ctx sg = Inr h"
  then obtain bs where "h = hexdigest (sha256 bs)"
    by (auto simp: generate_method_id_def split: sum.splits)
  then show "length h = 64" by (simp add: length_hexdigest)
next
  fix h assume "generate_method_id ctx sg = Inr h"
  then obtain bs where "h = hexdigest (sha256 bs)"
    by (auto simp: generate_method_id_def split: sum.splits)
  then show "\<forall>c\<in>set h. is_hexdigit c" by (simp add: set_hexdigest)
next
  show "generate_id package class_name sg =
       generate_method_id (package @ py ''::'' @ class_name) sg"
    by (simp add: generate_id_def generate_method_id_def)
qed

theorem generate_method_id_sha256_witness:
  "list_all is_scalar (py ''C'' @ py ''f()'') \<and>
   generate_method_id (py ''C'') (py ''f()'') =
     Inr (py ''4e60cac93a8f2e786722a2764f4813090c3f21b408a0286b78a8019d64dea337'') \<and>
   length (py ''4e60cac93a8f2e786722a2764f4813090c3f21b408a0286b78a8019d64dea337'') = 64 \<and>
   list_all is_hexdigit (py ''4e60cac93a8f2e786722a2764f4813090c3f21b408a0286b78a8019d64dea337'')"
proof -
  have sc: "\<forall>c\<in>set (py ''C'' @ py ''f()''). is_scalar c"
    by (simp add: py_def is_scalar_def)
  have dg: "hexdigest (sha256 (concat (map utf8_char (py ''C'')) @ [0x3A, 0x3A] @
                               concat (map utf8_char (py ''f()'')))) =
            py ''4e60cac93a8f2e786722a2764f4813090c3f21b408a0286b78a8019d64dea337''"
    by code_simp
  have "generate_method_id (py ''C'') (py ''f()'') =
     Inr (py ''4e60cac93a8f2e786722a2764f4813090c3f21b408a0286b78a8019d64dea337'') \<and>
   length (py ''4e60cac93a8f2e786722a2764f4813090c3f21b408a0286b78a8019d64dea337'') = 64 \<and>
   (\<forall>c\<in>set (py ''4e60cac93a8f2e786722a2764f4813090c3f21b408a0286b78a8019d64dea337'').
      is_hexdigit c)"
    using generate_method_id_sha256 [of "py ''C''" "py ''f()''"] sc dg by metis
  with sc show ?thesis
    unfolding list_all_iff by blast
qed

section \<open>Properties of the hierarchy scanner\<close>

lemma method_facts_eq:
  "method_facts src cs p n =
     (p \<or> list_ex (\<lambda>c. ntype c = ''modifiers'' \<and> contains (node_source src c) (py ''public'')) cs,
      case filter (\<lambda>c. ntype c = ''identifier'') cs of
        [] \<Rightarrow> n
      | c # r \<Rightarrow> Some (node_text (last (c # r))))"
  by (induction cs arbitrary: p n) (auto split: list.splits)

lemma method_facts_decl:
  "method_facts src (children m) False None = (has_public_modifier src m, declared_name m)"
  by (simp add: method_facts_eq has_public_modifier_def declared_name_def)

lemma public_names_loop_eq:
  "public_names_loop src cs acc =
     acc @ map (the \<circ> declared_name) (filter (is_public_method_decl src) cs)"
  by (induction cs arbitrary: acc)
     (auto simp: method_facts_decl is_public_method_decl_def)


lemma subnodes_self: "n \<in> set (subnodes n)"
  by (cases n) simp

lemma subnodes_child: "c \<in> set (children n) \<Longrightarrow> set (subnodes c) \<subseteq> set (subnodes n)"
  by (cases n) auto

lemma offsets_agree_self: "offsets_agree src n \<Longrightarrow> node_source src n = node_text n"
  using subnodes_self [of n] by (auto simp: offsets_agree_def list_all_iff)

lemma offsets_agree_child:
  "offsets_agree src n \<Longrightarrow> c \<in> set (children n) \<Longrightarrow> offsets_agree src c"
  using subnodes_child [of c n] by (auto simp: offsets_agree_def list_all_iff)

lemma find_nodes_subnodes: "set (find_nodes_by_type n t) \<subseteq> set (subnodes n)"
  by (induction n t rule: find_nodes_by_type.induct) auto

lemma subnodes_trans: "m \<in> set (subnodes n) \<Longrightarrow> set (subnodes m) \<subseteq> set (subnodes n)"
proof (induction n rule: subnodes.induct)
  case (1 t s e x cs)
  then show ?case by (auto simp: subnodes_self)
qed

lemma offsets_agree_found:
  "offsets_agree src n \<Longrightarrow> m \<in> set (find_nodes_by_type n t) \<Longrightarrow> offsets_agree src m"
  using find_nodes_subnodes [of n t] subnodes_trans [of m n]
  by (auto simp: offsets_agree_def list_all_iff)

lemma has_public_modifier_text:
  "offsets_agree src m \<Longrightarrow> has_public_modifier src m = says_public m"
proof -
  assume a: "offsets_agree src m"
  have "\<And>c. c \<in> set (children m) \<Longrightarrow> node_source src c = node_text c"
    using a by (blast intro: offsets_agree_child offsets_agree_self)
  then show ?thesis
    by (auto simp: has_public_modifier_def says_public_def list_ex_iff)
qed

lemma public_names_text:
  assumes "offsets_agree src class_node"
  shows "get_public_method_names class_node src = public_method_names class_node"
proof (cases "find (\<lambda>c. ntype c = ''class_body'') (children class_node)")
  case None
  then show ?thesis by (simp add: get_public_method_names_def public_method_names_def)
next
  case (Some body)
  then have "body \<in> set (children class_node)"
    by (auto simp: find_Some_iff in_set_conv_nth)
  then have b: "offsets_agree src body" using assms by (rule offsets_agree_child [rotated])
  have "\<And>m. m \<in> set (children body) \<Longrightarrow>
          is_public_method_decl src m =
            (ntype m = ''method_declaration'' \<and> says_public m \<and> truthy (declared_name m))"
    using b by (simp add: is_public_method_decl_def has_public_modifier_text offsets_agree_child)
  then have "filter (is_public_method_decl src) (children body) =
             filter (\<lambda>m. ntype m = ''method_declaration'' \<and> says_public m \<and>
                          truthy (declared_name m)) (children body)"
    by (intro filter_cong) simp_all
  then show ?thesis
    using Some
    by (simp add: get_public_method_names_def public_method_names_def public_names_loop_eq)
qed

lemma set_dict_set: "set (dict_set d k v) \<subseteq> insert (k, v) (set d)"
  by (induction d k v rule: dict_set.induct) auto

lemma class_info_loop_records:
  assumes "\<And>c. c \<in> set cs \<Longrightarrow> offsets_agree src c"
      and "entry \<in> set (class_info_loop src pkg cs acc)"
  shows "entry \<in> set acc \<or>
         (\<exists>c \<in> set cs. scanner_get_class_name c = Some (simple_name (snd entry)) \<and>
                        methods (snd entry) = public_method_names c)"
  using assms
proof (induction cs arbitrary: acc)
  case Nil
  then show ?case by simp
next
  case (Cons c cs)
  show ?case
  proof (cases "scanner_get_class_name c")
    case None
    then show ?thesis using Cons.IH [of acc] Cons.prems by auto
  next
    case (Some name)
    show ?thesis
    proof (cases "name = []")
      case True
      then show ?thesis using Some Cons.IH [of acc] Cons.prems by auto
    next
      case False
      let ?full = "if pkg \<noteq> [] \<and> pkg \<noteq> py ''None'' then pkg @ py ''.'' @ name else name"
      let ?r = "\<lparr>parent = get_parent_class c src, methods = get_public_method_names c src,
                 simple_name = name\<rparr>"
      have e: "entry \<in> set (class_info_loop src pkg cs (dict_set acc ?full ?r))"
        using Cons.prems(2) Some False by (simp add: Let_def)
      have m: "get_public_method_names c src = public_method_names c"
        using Cons.prems(1) by (simp add: public_names_text)
      from Cons.IH [of "dict_set acc ?full ?r"] e Cons.prems(1)
      have "entry \<in> set (dict_set acc ?full ?r) \<or>
            (\<exists>c \<in> set cs. scanner_get_class_name c = Some (simple_name (snd entry)) \<and>
                        methods (snd entry) = public_method_names c)"
        by simp
      then show ?thesis
        using set_dict_set [of acc ?full ?r] Some m by auto
    qed
  qed
qed

text \<open>
  C3 (as amended).  Take a source in which the byte range of every node, read as
  character offsets, gives the text of the node.  Then the \<open>methods\<close> list that the
  scanner computes for a class declaration holds, in declaration order, the name of every
  method declaration of the class body that has a modifiers node with \<open>public\<close> in
  its text and a non-empty name: one entry per declaration, so a name with several public
  overloads is listed once per overload.  And scanning a file of such a source returns
  class records each of which is the record of one of the file's class declarations, with
  that list as its \<open>methods\<close>.
\<close>

theorem get_public_method_names_declared:
  "(offsets_agree source_code class_node \<longrightarrow>
      get_public_method_names class_node source_code = public_method_names class_node) \<and>
   (read_text fs file_path = Inr source_code \<and> encode_utf8 source_code = Inr bs \<and>
    ts_parse ev bs = Inr root_node \<and> offsets_agree source_code root_node \<longrightarrow>
      (\<exists>class_info. extract_class_info ev fs file_path = Inr class_info \<and>
         records_of_classes (find_nodes_by_type root_node ''class_declaration'') class_info))"
proof (intro conjI impI)
  assume "offsets_agree source_code class_node"
  then show "get_public_method_names class_node source_code = public_method_names class_node"
    by (rule public_names_text)
next
  assume a: "read_text fs file_path = Inr source_code \<and> encode_utf8 source_code = Inr bs \<and>
    ts_parse ev bs = Inr root_node \<and> offsets_agree source_code root_node"
  let ?cs = "find_nodes_by_type root_node ''class_declaration''"
  let ?ci = "class_info_loop source_code
               (scanner_extract_package_name (children root_node) source_code) ?cs []"
  have r: "extract_class_info ev fs file_path = Inr ?ci"
    using a by (simp add: extract_class_info_def Let_def)
  have o: "\<And>c. c \<in> set ?cs \<Longrightarrow> offsets_agree source_code c"
    using a by (blast intro: offsets_agree_found)
  have "records_of_classes ?cs ?ci"
    unfolding records_of_classes_def list_all_iff list_ex_iff
    using class_info_loop_records [OF o] by fastforce
  then show "\<exists>class_info. extract_class_info ev fs file_path = Inr class_info \<and>
         records_of_classes ?cs class_info"
    using r by blast
qed

theorem get_public_method_names_declared_witness:
  "offsets_agree calc_source calc_class \<and>
   public_method_names calc_class = [py ''add'', py ''add''] \<and>
   get_public_method_names calc_class calc_source = [py ''add'', py ''add''] \<and>
   offsets_agree calc_source calc_root \<and>
   extract_class_info demo_env demo_fs demo_calc_path = Inr [(py ''Calc'', calc_record)] \<and>
   records_of_classes (find_nodes_by_type calc_root ''class_declaration'')
     [(py ''Calc'', calc_record)]"
proof -
  have o: "offsets_agree calc_source calc_class" by code_simp
  have n: "public_method_names calc_class = [py ''add'', py ''add'']" by code_simp
  have r: "offsets_agree calc_source calc_root" by code_simp
  have f: "read_text demo_fs demo_calc_path = Inr calc_source" by code_simp
  have t: "ts_parse demo_env bs = Inr calc_root" for bs by (simp add: demo_env_def)
  have s: "\<forall>c \<in> set calc_source. is_scalar c" by code_simp
  have e: "encode_utf8 calc_source = Inr (concat (map utf8_char calc_source))"
    using s by (rule encode_utf8_scalar)
  have i: "extract_class_info demo_env demo_fs demo_calc_path = Inr [(py ''Calc'', calc_record)]"
    by code_simp
  show ?thesis
    using get_public_method_names_declared
            [where source_code = calc_source and class_node = calc_class and fs = demo_fs
               and file_path = demo_calc_path and ev = demo_env and root_node = calc_root
               and bs = "concat (map utf8_char calc_source)"]
          o n r f t e i
    by auto
qed

text \<open>The class \<open>Calc\<close> declares two public overloads of \<open>add\<close>; the scanner
  records the name twice, so the recorded names are not distinct.\<close>

theorem overloads_recorded_twice:
  "get_public_method_names calc_class calc_source = [py ''add'', py ''add''] \<and>
   \<not> distinct (get_public_method_names calc_class calc_source)"
  by code_simp

lemma scan_files_eq:
  "scan_files ev fs files hm = foldl dict_update hm (successful_infos ev fs files)"
  by (induction files arbitrary: hm) (auto simp: successful_infos_def split: sum.splits)

lemma successful_infos_append:
  "successful_infos ev fs (xs @ ys) = successful_infos ev fs xs @ successful_infos ev fs ys"
  by (simp add: successful_infos_def)

lemma successful_infos_failed:
  "extract_class_info ev fs f = Inl e \<Longrightarrow> successful_infos ev fs (f # ys) = successful_infos ev fs ys"
  by (simp add: successful_infos_def)

text \<open>
  C8.  A file whose processing raises is skipped and the scan goes on: the map built by
  the loop is the merge of the class records of the files that were processed without an
  exception, and a failing file anywhere in the listing leaves the result as if it were
  not listed.  A missing root path makes \<open>build_project_map\<close> fail with
  \<open>FileNotFoundError\<close>, whatever the listing and the files are; with the root
  present the call fails only if the final write does.
\<close>

theorem scan_isolates_file_failures:
  "scan_files ev fs files hm = foldl dict_update hm (successful_infos ev fs files) \<and>
   (extract_class_info ev fs f = Inl e \<longrightarrow>
      scan_files ev fs (before @ f # after) hm = scan_files ev fs (before @ after) hm) \<and>
   (fs root_path = None \<longrightarrow>
      build_project_map ev fs root_path output_file = Inl FileNotFoundError) \<and>
   (fs root_path \<noteq> None \<longrightarrow>
      build_project_map ev fs root_path output_file =
        (let hierarchy_map =
               foldl dict_update [] (successful_infos ev fs (rglob_java ev fs root_path))
         in case write_text fs (path_join root_path output_file) (json_dump ev hierarchy_map) of
              Inl e \<Rightarrow> Inl e
            | Inr fs' \<Rightarrow> Inr (fs', hierarchy_map)))"
proof (intro conjI impI)
  show "scan_files ev fs files hm = foldl dict_update hm (successful_infos ev fs files)"
    by (rule scan_files_eq)
next
  assume "extract_class_info ev fs f = Inl e"
  then show "scan_files ev fs (before @ f # after) hm = scan_files ev fs (before @ after) hm"
    by (simp add: scan_files_eq successful_infos_append successful_infos_failed)
next
  assume "fs root_path = None"
  then show "build_project_map ev fs root_path output_file = Inl FileNotFoundError"
    by (simp add: build_project_map_def)
next
  assume "fs root_path \<noteq> None"
  then show "build_project_map ev fs root_path output_file =
        (let hierarchy_map =
               foldl dict_update [] (successful_infos ev fs (rglob_java ev fs root_path))
         in case write_text fs (path_join root_path output_file) (json_dump ev hierarchy_map) of
              Inl e \<Rightarrow> Inl e
            | Inr fs' \<Rightarrow> Inr (fs', hierarchy_map))"
    by (cases "fs root_path")
       (simp_all add: build_project_map_def scan_files_eq path_join_def Let_def)
qed

lemma demo_calc_info:
  "extract_class_info demo_env demo_fs demo_calc_path = Inr [(py ''Calc'', calc_record)]"
  by code_simp

lemma demo_dir_info: "extract_class_info demo_env demo_fs demo_dir_path = Inl OSError"
  by code_simp

theorem scan_isolates_file_failures_witness:
  "extract_class_info demo_env demo_fs demo_dir_path = Inl OSError \<and>
   scan_files demo_env demo_fs [demo_dir_path, demo_calc_path] [] =
     scan_files demo_env demo_fs [demo_calc_path] [] \<and>
   scan_files demo_env demo_fs [demo_dir_path, demo_calc_path] [] = [(py ''Calc'', calc_record)] \<and>
   demo_fs (Path True [py ''nowhere'']) = None \<and>
   build_project_map demo_env demo_fs (Path True [py ''nowhere'']) demo_out = Inl FileNotFoundError \<and>
   demo_fs demo_root = Some Dir \<and>
   map_sum id snd (build_project_map demo_env demo_fs demo_root demo_out) =
     Inr [(py ''Calc'', calc_record)]"
proof -
  have none: "demo_fs (Path True [py ''nowhere'']) = None"
    by (simp add: demo_fs_def demo_root_def demo_calc_path_def demo_dir_path_def py_def)
  have root: "demo_fs demo_root = Some Dir"
    by (simp add: demo_fs_def demo_root_def demo_calc_path_def demo_dir_path_def py_def)
  have run: "scan_files demo_env demo_fs [demo_dir_path, demo_calc_path] [] = [(py ''Calc'', calc_record)]"
    by code_simp
  have all: "map_sum id snd (build_project_map demo_env demo_fs demo_root demo_out) =
     Inr [(py ''Calc'', calc_record)]"
    by code_simp
  show ?thesis
    using scan_isolates_file_failures
            [of demo_env demo_fs "[demo_dir_path, demo_calc_path]" "[]" demo_dir_path OSError
                "[]" "[demo_calc_path]" "Path True [py ''nowhere'']" demo_out]
          demo_dir_info none root run all
    by simp
qed

text \<open>
  C7 (as amended).  \<open>build_project_map\<close> is not free of effects on storage: the same
  call that builds the map writes it to the output file.  When the call returns, the map
  is the one built by the scan loop, and the file system differs from the one before the
  call exactly at the output path (the output file itself when absolute, otherwise the
  root joined with it), which now holds the serialised map.
\<close>

theorem build_project_map_writes_output:
  "build_project_map ev fs root_path output_file = Inr (fs', hm) \<longrightarrow>
     hm = scan_files ev fs (rglob_java ev fs root_path) [] \<and>
     fs' = fs(path_join root_path output_file \<mapsto> File (json_dump ev hm))"
  by (auto simp: build_project_map_def write_text_def path_join_def Let_def
           split: if_splits sum.splits)

theorem build_project_map_writes_output_witness:
  "build_project_map demo_env demo_fs demo_root demo_out =
     Inr (demo_fs(demo_out_path \<mapsto> File (py ''Calc'')), [(py ''Calc'', calc_record)]) \<and>
   path_join demo_root demo_out = demo_out_path \<and>
   json_dump demo_env [(py ''Calc'', calc_record)] = py ''Calc''"
proof -
  have run: "scan_files demo_env demo_fs [demo_dir_path, demo_calc_path] [] = [(py ''Calc'', calc_record)]"
    by code_simp
  have pj: "path_join demo_root demo_out = demo_out_path"
    by code_simp
  have jd: "json_dump demo_env [(py ''Calc'', calc_record)] = py ''Calc''"
    by (simp add: demo_env_def)
  have wr: "write_text demo_fs demo_out_path (py ''Calc'') =
      Inr (demo_fs(demo_out_path \<mapsto> File (py ''Calc'')))"
    by (simp add: write_text_def path_parent_def demo_out_path_def demo_fs_def demo_root_def
          demo_calc_path_def demo_dir_path_def py_def)
  have root: "demo_fs demo_root = Some Dir"
    by (simp add: demo_fs_def demo_root_def demo_calc_path_def demo_dir_path_def py_def)
  have rg: "rglob_java demo_env demo_fs demo_root = [demo_dir_path, demo_calc_path]"
    by (simp add: demo_env_def)
  have nabs: "\<not> is_absolute demo_out" by (simp add: demo_out_def)
  have bpm: "build_project_map demo_env demo_fs demo_root demo_out =
     Inr (demo_fs(demo_out_path \<mapsto> File (py ''Calc'')), [(py ''Calc'', calc_record)])"
    using root rg run pj jd wr nabs by (simp add: build_project_map_def)
  show ?thesis
    using build_project_map_writes_output
            [of demo_env demo_fs demo_root demo_out
                "demo_fs(demo_out_path \<mapsto> File (py ''Calc''))" "[(py ''Calc'', calc_record)]"]
          bpm pj jd
    by simp
qed

text \<open>Scanning the example project creates \<open>project_hierarchy.json\<close>, which did
  not exist before: the claim that the scan leaves the file system unchanged fails.\<close>

theorem scan_writes_the_map_file:
  "(case build_project_map demo_env demo_fs demo_root demo_out of
      Inl e \<Rightarrow> False
    | Inr (fs', hm) \<Rightarrow>
        demo_fs demo_out_path = None \<and> fs' demo_out_path = Some (File (py ''Calc'')))"
  by code_simp

section \<open>Properties of the structural parser\<close>

lemma param_facts_type:
  "fst (param_facts src cs t n) =
     (case filter (\<lambda>c. ntype c \<in> set parameter_type_nodes) cs of
        [] \<Rightarrow> t
      | c # r \<Rightarrow> Some (strip (node_source src (last (c # r)))))"
  by (induction cs arbitrary: t n) (auto split: list.splits)

lemma param_facts_declared:
  "fst (param_facts src (children p) None None) = declared_param_type src p"
  by (simp add: param_facts_type declared_param_type_def)

lemma parameters_loop_types:
  "snd (parameters_loop src cs ps ts) =
     ts @ map (\<lambda>p. clean_type (the (declared_param_type src p)))
            (filter (\<lambda>p. ntype p = ''formal_parameter'' \<and> truthy (declared_param_type src p)) cs)"
proof (induction cs arbitrary: ps ts)
  case Nil
  then show ?case by simp
next
  case (Cons c cs)
  obtain t n where pf: "param_facts src (children c) None None = (t, n)"
    by (cases "param_facts src (children c) None None")
  then have t: "t = declared_param_type src c"
    using param_facts_declared [of src c] by simp
  show ?case
    using Cons.IH pf t by (simp add: Let_def)
qed

lemma extract_parameter_types:
  "snd (extract_parameters_with_types fp src) = map clean_type (declared_types src fp)"
  by (simp add: extract_parameters_with_types_def parameters_loop_types declared_types_def comp_def)

lemma complex_loop_eq:
  "complex_loop ts acc = acc @ filter (\<lambda>t. t \<notin> primitives_and_common) ts"
  by (induction ts arbitrary: acc) auto

lemma first_seen_filter:
  "first_seen (filter P xs) = filter P (first_seen xs)"
proof (induction xs rule: first_seen.induct)
  case 1
  then show ?case by simp
next
  case (2 x xs)
  have comm: "filter (\<lambda>y. y \<noteq> x) (filter P xs) = filter P (filter (\<lambda>y. y \<noteq> x) xs)"
    by (simp add: conj_commute)
  show ?case
  proof (cases "P x")
    case True
    then show ?thesis using "2.IH" comm by simp
  next
    case False
    then have "filter P (filter (\<lambda>y. y \<noteq> x) xs) = filter P xs"
      by (auto intro: filter_cong)
    then show ?thesis using False "2.IH" by simp
  qed
qed

lemma unique_loop_eq:
  "seen = set acc \<Longrightarrow>
   unique_loop ts seen acc = acc @ first_seen (filter (\<lambda>t. t \<notin> set acc) ts)"
proof (induction ts arbitrary: seen acc)
  case Nil
  then show ?case by simp
next
  case (Cons t ts)
  show ?case
  proof (cases "t \<in> set acc")
    case True
    then show ?thesis using Cons by simp
  next
    case False
    have ins: "insert t seen = set (acc @ [t])" using Cons.prems by simp
    have flt: "filter (\<lambda>u. u \<notin> set (acc @ [t])) ts =
               filter (\<lambda>y. y \<noteq> t) (filter (\<lambda>u. u \<notin> set acc) ts)"
      by (auto intro: filter_cong)
    show ?thesis
      using False Cons.prems Cons.IH [OF ins] flt by simp
  qed
qed

lemma filter_complex_types_eq:
  "filter_complex_types ts = first_seen (filter (\<lambda>t. t \<notin> primitives_and_common) ts)"
  by (simp add: filter_complex_types_def complex_loop_eq unique_loop_eq)

lemma set_first_seen: "set (first_seen xs) = set xs"
  by (induction xs rule: first_seen.induct) auto

lemma distinct_first_seen: "distinct (first_seen xs)"
  by (induction xs rule: first_seen.induct) (auto simp: set_first_seen)

lemma fp_not_return: "''formal_parameters'' \<notin> set return_type_nodes"
  by (simp add: return_type_nodes_def)

lemma loop_parameter_types:
  "mv_parameter_types (method_children_loop src cs v) =
     (case filter (\<lambda>c. ntype c = ''formal_parameters'') cs of
        [] \<Rightarrow> mv_parameter_types v
      | c # r \<Rightarrow> snd (extract_parameters_with_types (last (c # r)) src))"
  using fp_not_return
  by (induction cs arbitrary: v) (auto split: list.splits prod.splits)

lemma set_filter_complex_types:
  "set (filter_complex_types ts) = set ts - primitives_and_common"
  by (auto simp: filter_complex_types_eq set_first_seen)

lemma extract_method_info_deps:
  "extract_method_info m src ctx cn ic = Some info \<Longrightarrow>
   dependency_types info =
     filter_complex_types
       (case formal_parameters_of m of
          None \<Rightarrow> []
        | Some fp \<Rightarrow> map clean_type (declared_types src fp))"
  by (auto simp: extract_method_info_def Let_def loop_parameter_types formal_parameters_of_def
        initial_method_vars_def extract_parameter_types
      split: if_splits list.splits)

lemma split_on_not_Nil: "split_on sep s \<noteq> []"
  by (induction s) (auto split: list.splits)

lemma hd_split_on: "hd (split_on sep s) = takeWhile (\<lambda>c. c \<noteq> sep) s"
  using split_on_not_Nil by (induction s) (auto split: list.splits)

lemma last_filter_in: "filter P xs = c # cs \<Longrightarrow> last (c # cs) \<in> set xs"
proof -
  assume a: "filter P xs = c # cs"
  have "last (c # cs) \<in> set (filter P xs)" unfolding a by (rule last_in_set) simp
  then show ?thesis by simp
qed

lemma clean_type_eq: "clean_type t = strip_generics_and_arrays t"
  by (simp add: clean_type_def strip_generics_and_arrays_def hd_split_on)

lemma declared_param_type_text:
  assumes "offsets_agree src p"
  shows "declared_param_type src p = param_type_text p"
proof (cases "filter (\<lambda>c. ntype c \<in> set parameter_type_nodes) (children p)")
  case Nil
  then show ?thesis by (simp add: declared_param_type_def param_type_text_def)
next
  case (Cons c cs)
  then have "last (c # cs) \<in> set (children p)" by (rule last_filter_in)
  then have "node_source src (last (c # cs)) = node_text (last (c # cs))"
    using assms by (blast intro: offsets_agree_child offsets_agree_self)
  then show ?thesis using Cons by (simp add: declared_param_type_def param_type_text_def)
qed

lemma declared_types_text:
  assumes "offsets_agree src fp"
  shows "declared_types src fp =
           map (the \<circ> param_type_text)
            (filter (\<lambda>p. ntype p = ''formal_parameter'' \<and> truthy (param_type_text p))
               (children fp))"
proof -
  have e: "\<And>p. p \<in> set (children fp) \<Longrightarrow> declared_param_type src p = param_type_text p"
    using assms by (blast intro: declared_param_type_text offsets_agree_child)
  have f: "filter (\<lambda>p. ntype p = ''formal_parameter'' \<and> truthy (declared_param_type src p))
             (children fp) =
           filter (\<lambda>p. ntype p = ''formal_parameter'' \<and> truthy (param_type_text p)) (children fp)"
    using e by (intro filter_cong) simp_all
  show ?thesis
    unfolding declared_types_def f
    using e by (intro map_cong) simp_all
qed

lemma dependency_types_of_text:
  assumes "offsets_agree src m"
      and "extract_method_info m src ctx cn ic = Some info"
  shows "dependency_types info = claimed_dependency_types (parameter_type_texts m)"
proof (cases "formal_parameters_of m")
  case None
  then show ?thesis
    using extract_method_info_deps [OF assms(2)]
    by (simp add: filter_complex_types_eq claimed_dependency_types_def parameter_type_texts_def)
next
  case (Some fp)
  then have "fp \<in> set (children m)"
    by (auto simp: formal_parameters_of_def split: list.splits dest: last_filter_in)
  then have "offsets_agree src fp" using assms(1) by (blast intro: offsets_agree_child)
  then show ?thesis
    using extract_method_info_deps [OF assms(2)] Some
    by (simp add: filter_complex_types_eq claimed_dependency_types_def parameter_type_texts_def
                  declared_types_text clean_type_eq [abs_def] comp_def)
qed

text \<open>
  C5.  The dependency types are meant to be the cleaned parameter types outside the
  exclusion set, de-duplicated; where the byte offsets of the nodes agree with the
  character offsets, \<open>_extract_method_info\<close> computes exactly that from the formal
  parameters.  The type of a parameter is read as
  \<open>source_code[param_child.start_byte:param_child.end_byte]\<close>, though, and in
  \<open>Pay.java\<close> the name of the first parameter of \<open>pay\<close> ends in a character of
  two bytes, before the type of the second: the parameter types are \<open>String\<close> and
  \<open>Transaction\<close>, the dependency types should be \<open>[Transaction]\<close>, and the parser
  returns \<open>[ransaction]\<close>.
\<close>

theorem dependency_types_shifted:
  "parameter_type_texts pay_method = [py ''String'', py ''Transaction''] \<and>
   claimed_dependency_types (parameter_type_texts pay_method) = [py ''Transaction''] \<and>
   is_public_method pay_method pay_source \<and>
   map_option dependency_types
     (extract_method_info pay_method pay_source pay_context (py ''Pay'') False) =
       Some [py ''ransaction''] \<and>
   map_option method_signature
     (extract_method_info pay_method pay_source pay_context (py ''Pay'') False) =
       Some (py ''public void pay(String caf'' @ [233] @ py '', ransaction t)'') \<and>
   \<not> offsets_agree pay_source pay_method"
  by code_simp

lemma ledger_move_info:
  "extract_method_info ledger_move ledger_source ledger_context (py ''Ledger'') False =
     Some \<lparr>method_name = py ''move'',
           method_signature = py ''public void move(Transaction t1, Transaction t2)'',
           method_body = py ''{ t1.apply(t2); }'',
           class_context = ledger_context,
           dependency_types = [py ''Transaction'']\<rparr>"
  by code_simp

lemma ledger_log_info:
  "extract_method_info ledger_log ledger_source ledger_context (py ''Ledger'') False =
     Some \<lparr>method_name = py ''log'',
           method_signature = py ''public void log(int x, String s)'',
           method_body = py ''{ }'',
           class_context = ledger_context,
           dependency_types = []\<rparr>"
  by code_simp

lemma strip_Nil: "strip [] = []"
  by (simp add: strip_def lstrip_def rstrip_def)

lemma is_empty_method_code_lines: "is_empty_method body = (code_lines body = [])"
proof (cases "brace_stripped body = []")
  case True
  then show ?thesis
    by (simp add: is_empty_method_def code_lines_def brace_stripped_def Let_def strip_Nil
          split: if_splits)
next
  case False
  then show ?thesis
    by (simp add: is_empty_method_def code_lines_def brace_stripped_def is_comment_line_def Let_def
          split: if_splits)
qed

lemma collect_append:
  "collect f (xs @ ys) =
     (case collect f xs of
        Inl e \<Rightarrow> Inl e
      | Inr a \<Rightarrow> (case collect f ys of Inl e \<Rightarrow> Inl e | Inr b \<Rightarrow> Inr (a @ b)))"
  by (induction xs) (auto split: sum.splits)

lemma collect_skip:
  "f x = Inr [] \<Longrightarrow> collect f (xs @ x # ys) = collect f (xs @ ys)"
  by (simp add: collect_append split: sum.splits)

lemma collect_Inr:
  "collect f xs = Inr ys \<Longrightarrow> ys = concat (map (\<lambda>x. projr (f x)) xs)"
  by (induction xs arbitrary: ys) (auto split: sum.splits)

lemma class_chunks_Inr:
  assumes "class_chunks frames hm src pkg cls = Inr cs"
  shows "\<exists>ctx. format_class_context frames hm pkg (parser_get_class_name cls)
                  (extract_fields cls src) (get_parent_class cls src) = Inr ctx \<and>
               cs = concat (map (\<lambda>m. projr (declaration_chunks src ctx (parser_get_class_name cls) False m))
                              (find_nodes_by_type cls ''method_declaration'')) @
                    concat (map (\<lambda>m. projr (declaration_chunks src ctx (parser_get_class_name cls) True m))
                              (find_nodes_by_type cls ''constructor_declaration''))"
  using assms
  by (auto simp: class_chunks_def Let_def split: sum.splits dest!: collect_Inr)

lemma is_public_method_text:
  assumes "offsets_agree src m"
  shows "is_public_method m src = declares_public m"
proof (cases "find (\<lambda>c. ntype c = ''modifiers'') (children m)")
  case None
  then show ?thesis by (simp add: is_public_method_def declares_public_def)
next
  case (Some c)
  then have "c \<in> set (children m)" by (auto simp: find_Some_iff in_set_conv_nth)
  then have "node_source src c = node_text c"
    using assms by (blast intro: offsets_agree_child offsets_agree_self)
  then show ?thesis using Some by (simp add: is_public_method_def declares_public_def)
qed

lemma loop_method_name:
  "mv_method_name (method_children_loop src cs v) =
     (case filter (\<lambda>c. ntype c = ''identifier'') cs of
        [] \<Rightarrow> mv_method_name v
      | c # r \<Rightarrow> Some (node_text (last (c # r))))"
  by (induction cs arbitrary: v) (auto split: list.splits prod.splits)

lemma block_not_return:
  "''block'' \<notin> set return_type_nodes" "''constructor_body'' \<notin> set return_type_nodes"
  by (simp_all add: return_type_nodes_def)

lemma loop_method_body:
  "mv_method_body (method_children_loop src cs v) =
     (case filter (\<lambda>c. ntype c \<in> {''block'', ''constructor_body''}) cs of
        [] \<Rightarrow> mv_method_body v
      | c # r \<Rightarrow> Some (strip (node_source src (last (c # r)))))"
  using block_not_return
  by (induction cs arbitrary: v) (auto split: list.splits prod.splits)

lemma extract_method_info_None:
  "(extract_method_info m src ctx cn ic = None) = (\<not> ic \<and> \<not> truthy (declared_name m))"
  by (auto simp: extract_method_info_def Let_def loop_method_name declared_name_def
        initial_method_vars_def split: list.splits)

lemma extract_method_info_name:
  "extract_method_info m src ctx cn ic = Some info \<Longrightarrow>
   method_name info = (if ic then py ''<Constructor>'' else the (declared_name m))"
  by (auto simp: extract_method_info_def Let_def loop_method_name declared_name_def
        initial_method_vars_def split: list.splits if_splits)

lemma extract_method_info_body:
  assumes "offsets_agree src m" and "extract_method_info m src ctx cn ic = Some info"
  shows "method_body info = body_text m"
proof -
  have s: "node_source src m = node_text m" using assms(1) by (rule offsets_agree_self)
  show ?thesis
  proof (cases "filter (\<lambda>c. ntype c \<in> {''block'', ''constructor_body''}) (children m)")
    case Nil
    then show ?thesis
      using assms(2) s
      by (auto simp: extract_method_info_def Let_def loop_method_body body_text_def
            initial_method_vars_def split: if_splits)
  next
    case (Cons c cs)
    then have "last (c # cs) \<in> set (children m)" by (rule last_filter_in)
    then have "node_source src (last (c # cs)) = node_text (last (c # cs))"
      using assms(1) by (blast intro: offsets_agree_child offsets_agree_self)
    then show ?thesis
      using assms(2) s Cons
      by (auto simp: extract_method_info_def Let_def loop_method_body body_text_def
            initial_method_vars_def split: if_splits)
  qed
qed

lemma declaration_chunks_text:
  assumes "offsets_agree src m" and "declaration_chunks src ctx cn ic m = Inr cs"
  shows "names_and_bodies cs =
           (if yields_chunk ic m
            then [(if ic then py ''<Constructor>'' else the (declared_name m), body_text m)]
            else [])"
proof (cases "extract_method_info m src ctx cn ic")
  case None
  then show ?thesis
    using assms(2) extract_method_info_None [of m src ctx cn ic]
    by (auto simp: declaration_chunks_def names_and_bodies_def yields_chunk_def split: if_splits)
next
  case (Some info)
  note b = extract_method_info_body [OF assms(1) Some]
  note n = extract_method_info_name [OF Some]
  have t: "ic \<or> truthy (declared_name m)"
    using Some extract_method_info_None [of m src ctx cn ic] by auto
  show ?thesis
    using assms(2) Some b n t is_public_method_text [OF assms(1)]
    by (auto simp: declaration_chunks_def names_and_bodies_def yields_chunk_def
                   is_empty_method_code_lines method_info.defs
             split: if_splits sum.splits)
qed

lemma collect_each:
  "collect f xs = Inr ys \<Longrightarrow> x \<in> set xs \<Longrightarrow> \<exists>cs. f x = Inr cs"
  by (induction xs arbitrary: ys) (auto split: sum.splits)

lemma collect_mapped:
  assumes "collect f xs = Inr ys"
      and "\<And>x cs. x \<in> set xs \<Longrightarrow> f x = Inr cs \<Longrightarrow> g cs = h x"
      and "\<And>a b. g (a @ b) = g a @ g b" and "g [] = []"
  shows "g ys = concat (map h xs)"
  using assms(1,2)
proof (induction xs arbitrary: ys)
  case Nil
  then show ?case by (simp add: assms(4))
next
  case (Cons x xs)
  then show ?case by (auto simp: assms(3) split: sum.splits)
qed

lemma names_and_bodies_append:
  "names_and_bodies (a @ b) = names_and_bodies a @ names_and_bodies b" "names_and_bodies [] = []"
  by (simp_all add: names_and_bodies_def)

lemma map_filter_singletons:
  "concat (map (\<lambda>x. if P x then [h x] else []) xs) = map h (filter P xs)"
  by (induction xs) auto

lemma class_chunks_text:
  assumes "offsets_agree src cls" and "class_chunks frames hm src pkg cls = Inr cs"
  shows "names_and_bodies cs =
        map (\<lambda>m. (the (declared_name m), body_text m))
          (filter (yields_chunk False) (find_nodes_by_type cls ''method_declaration'')) @
        map (\<lambda>m. (py ''<Constructor>'', body_text m))
          (filter (yields_chunk True) (find_nodes_by_type cls ''constructor_declaration''))"
proof -
  obtain ctx ms ks where
    m: "collect (declaration_chunks src ctx (parser_get_class_name cls) False)
          (find_nodes_by_type cls ''method_declaration'') = Inr ms" and
    k: "collect (declaration_chunks src ctx (parser_get_class_name cls) True)
          (find_nodes_by_type cls ''constructor_declaration'') = Inr ks" and
    c: "cs = ms @ ks"
    using assms(2) by (auto simp: class_chunks_def Let_def split: sum.splits)
  have o: "\<And>t x. x \<in> set (find_nodes_by_type cls t) \<Longrightarrow> offsets_agree src x"
    using assms(1) by (blast intro: offsets_agree_found)
  have "names_and_bodies ms =
          concat (map (\<lambda>m. if yields_chunk False m then [(the (declared_name m), body_text m)] else [])
                    (find_nodes_by_type cls ''method_declaration''))"
    using m o
    by (intro collect_mapped [where f = "declaration_chunks src ctx (parser_get_class_name cls) False"])
       (auto simp: names_and_bodies_append dest!: declaration_chunks_text [rotated])
  moreover have "names_and_bodies ks =
          concat (map (\<lambda>m. if yields_chunk True m then [(py ''<Constructor>'', body_text m)] else [])
                    (find_nodes_by_type cls ''constructor_declaration''))"
    using k o
    by (intro collect_mapped [where f = "declaration_chunks src ctx (parser_get_class_name cls) True"])
       (auto simp: names_and_bodies_append dest!: declaration_chunks_text [rotated])
  ultimately show ?thesis
    by (simp add: c names_and_bodies_append map_filter_singletons)
qed

lemma parse_source_text:
  assumes "offsets_agree src root_node" and "parse_source frames hm src root_node = Inr chunks"
  shows "names_and_bodies chunks = expected_chunks root_node"
  unfolding expected_chunks_def
  using assms(2) unfolding parse_source_def Let_def
proof (rule collect_mapped)
  fix x cs
  assume "x \<in> set (find_nodes_by_type root_node ''class_declaration'')"
     and "class_chunks frames hm src (parser_extract_package_name (children root_node) src) x = Inr cs"
  then show "names_and_bodies cs =
        map (\<lambda>m. (the (declared_name m), body_text m))
          (filter (yields_chunk False) (find_nodes_by_type x ''method_declaration'')) @
        map (\<lambda>m. (py ''<Constructor>'', body_text m))
          (filter (yields_chunk True) (find_nodes_by_type x ''constructor_declaration''))"
    using assms(1) by (blast intro: class_chunks_text offsets_agree_found)
qed (simp_all add: names_and_bodies_append)

lemma generate_method_id_returns:
  "\<forall>c \<in> set (ctx @ py ''::'' @ sg). is_scalar c \<Longrightarrow> \<exists>i. generate_method_id ctx sg = Inr i"
  by (simp add: generate_method_id_def Let_def encode_utf8_scalar del: set_append)

lemma declaration_chunks_value:
  assumes "is_public_method m src"
      and "extract_method_info m src ctx cn ic = Some info"
      and "\<not> is_empty_method (method_body info)"
      and "\<forall>c \<in> set (ctx @ py ''::'' @ method_signature info). is_scalar c"
  shows "\<exists>i. declaration_chunks src ctx cn ic m = Inr [method_info.extend info \<lparr>chunk_id = i\<rparr>]"
  using assms(1,2,3) generate_method_id_returns [OF assms(4)]
  by (auto simp: declaration_chunks_def)

lemma declaration_chunks_empty:
  assumes "extract_method_info m src ctx cn ic = Some info"
      and "is_empty_method (method_body info)"
  shows "declaration_chunks src ctx cn ic m = Inr []"
  using assms by (simp add: declaration_chunks_def)

text \<open>
  C4 (as amended).  Take a file in whose source the byte range of every node, read as
  character offsets, gives the text of the node.  When \<open>parse_file\<close> returns, the
  names and bodies of its chunks are, in order and for each class declaration, those of
  the method declarations and then of the constructor declarations that are public, have
  a name (a constructor needs none) and whose body text has a line of code: a trimmed
  line of the brace-stripped body that is not empty and does not start with a comment
  marker.  The body text is that of the block of the declaration, and of the whole
  declaration when it has no block.
\<close>

theorem empty_bodies_are_dropped:
  assumes "read_text fs file_path = Inr source_code"
      and "encode_utf8 source_code = Inr bs"
      and "ts_parse ev bs = Inr root_node"
      and "offsets_agree source_code root_node"
      and "parse_file ev frames hm fs file_path = Inr chunks"
  shows "names_and_bodies chunks = expected_chunks root_node"
proof -
  have "fs file_path \<noteq> None" using assms(1) by (cases "fs file_path") (simp_all add: read_text_def)
  then have "parse_source frames hm source_code root_node = Inr chunks"
    using assms(1,2,3,5) by (auto simp: parse_file_def)
  then show ?thesis using assms(4) by (rule parse_source_text [rotated])
qed

lemma ledger_one_info:
  "extract_method_info ledger_one ledger_source ledger_context (py ''Ledger'') False =
     Some \<lparr>method_name = py ''one'',
           method_signature = py ''public int one()'',
           method_body = py ''{ return 1; }'',
           class_context = ledger_context,
           dependency_types = []\<rparr>"
  by code_simp

lemma ledger_note_info:
  "extract_method_info ledger_note ledger_source ledger_context (py ''Ledger'') False =
     Some \<lparr>method_name = py ''note'',
           method_signature = py ''public void note()'',
           method_body = py ''{'' @ [10] @ py '' // comment'' @ [10] @ py '' }'',
           class_context = ledger_context,
           dependency_types = []\<rparr>"
  by code_simp

lemma ledger_parse:
  "\<exists>i j. parse_source 10 [] ledger_source ledger_root =
     Inr [method_info.extend
            \<lparr>method_name = py ''move'',
             method_signature = py ''public void move(Transaction t1, Transaction t2)'',
             method_body = py ''{ t1.apply(t2); }'',
             class_context = ledger_context,
             dependency_types = [py ''Transaction'']\<rparr> \<lparr>chunk_id = i\<rparr>,
          method_info.extend
            \<lparr>method_name = py ''one'',
             method_signature = py ''public int one()'',
             method_body = py ''{ return 1; }'',
             class_context = ledger_context,
             dependency_types = []\<rparr> \<lparr>chunk_id = j\<rparr>]"
proof -
  have cls: "find_nodes_by_type ledger_root ''class_declaration'' = [ledger_class]" by code_simp
  have pkg: "parser_extract_package_name (children ledger_root) ledger_source = py ''None''"
    by code_simp
  have nm: "parser_get_class_name ledger_class = py ''Ledger''" by code_simp
  have ctx: "format_class_context 10 [] (py ''None'') (py ''Ledger'')
               (extract_fields ledger_class ledger_source)
               (get_parent_class ledger_class ledger_source) = Inr ledger_context"
    by code_simp
  have ms: "find_nodes_by_type ledger_class ''method_declaration'' =
              [ledger_move, ledger_log, ledger_one, ledger_note]" by code_simp
  have ks: "find_nodes_by_type ledger_class ''constructor_declaration'' = []" by code_simp
  have p1: "is_public_method ledger_move ledger_source" by code_simp
  have p3: "is_public_method ledger_one ledger_source" by code_simp
  have e1: "\<not> is_empty_method (py ''{ t1.apply(t2); }'')" by code_simp
  have e2: "is_empty_method (py ''{ }'')" by code_simp
  have e3: "\<not> is_empty_method (py ''{ return 1; }'')" by code_simp
  have e4: "is_empty_method (py ''{'' @ [10] @ py '' // comment'' @ [10] @ py '' }'')" by code_simp
  have s1: "\<forall>c \<in> set (ledger_context @ py ''::'' @
              py ''public void move(Transaction t1, Transaction t2)''). is_scalar c" by code_simp
  have s3: "\<forall>c \<in> set (ledger_context @ py ''::'' @ py ''public int one()''). is_scalar c"
    by code_simp
  obtain i where d1: "declaration_chunks ledger_source ledger_context (py ''Ledger'') False ledger_move =
      Inr [method_info.extend
            \<lparr>method_name = py ''move'',
             method_signature = py ''public void move(Transaction t1, Transaction t2)'',
             method_body = py ''{ t1.apply(t2); }'',
             class_context = ledger_context,
             dependency_types = [py ''Transaction'']\<rparr> \<lparr>chunk_id = i\<rparr>]"
    using declaration_chunks_value [OF p1 ledger_move_info] e1 s1 by auto
  obtain j where d3: "declaration_chunks ledger_source ledger_context (py ''Ledger'') False ledger_one =
      Inr [method_info.extend
            \<lparr>method_name = py ''one'',
             method_signature = py ''public int one()'',
             method_body = py ''{ return 1; }'',
             class_context = ledger_context,
             dependency_types = []\<rparr> \<lparr>chunk_id = j\<rparr>]"
    using declaration_chunks_value [OF p3 ledger_one_info] e3 s3 by auto
  have d2: "declaration_chunks ledger_source ledger_context (py ''Ledger'') False ledger_log = Inr []"
    using declaration_chunks_empty [OF ledger_log_info] e2 by simp
  have d4: "declaration_chunks ledger_source ledger_context (py ''Ledger'') False ledger_note = Inr []"
    using declaration_chunks_empty [OF ledger_note_info] e4 by simp
  show ?thesis
    by (rule exI [where x = i], rule exI [where x = j])
       (simp add: parse_source_def class_chunks_def Let_def cls pkg nm ctx ms ks d1 d2 d3 d4)
qed

theorem empty_bodies_are_dropped_witness:
  "offsets_agree ledger_source ledger_root \<and>
   \<not> isl (parse_file ledger_env 10 [] ledger_fs ledger_path) \<and>
   names_and_bodies (projr (parse_file ledger_env 10 [] ledger_fs ledger_path)) =
     [(py ''move'', py ''{ t1.apply(t2); }''), (py ''one'', py ''{ return 1; }'')] \<and>
   expected_chunks ledger_root =
     [(py ''move'', py ''{ t1.apply(t2); }''), (py ''one'', py ''{ return 1; }'')] \<and>
   map body_text [ledger_move, ledger_log, ledger_one, ledger_note] =
     [py ''{ t1.apply(t2); }'', py ''{ }'', py ''{ return 1; }'',
      py ''{'' @ [10] @ py '' // comment'' @ [10] @ py '' }''] \<and>
   code_lines (py ''{ }'') = [] \<and>
   code_lines (py ''{'' @ [10] @ py '' // comment'' @ [10] @ py '' }'') = [] \<and>
   code_lines (py ''{ return 1; }'') = [py ''return 1;'']"
proof -
  have o: "offsets_agree ledger_source ledger_root" by code_simp
  have x: "expected_chunks ledger_root =
     [(py ''move'', py ''{ t1.apply(t2); }''), (py ''one'', py ''{ return 1; }'')]" by code_simp
  have b: "map body_text [ledger_move, ledger_log, ledger_one, ledger_note] =
     [py ''{ t1.apply(t2); }'', py ''{ }'', py ''{ return 1; }'',
      py ''{'' @ [10] @ py '' // comment'' @ [10] @ py '' }'']" by code_simp
  have c1: "code_lines (py ''{ }'') = []" by code_simp
  have c2: "code_lines (py ''{'' @ [10] @ py '' // comment'' @ [10] @ py '' }'') = []"
    by code_simp
  have c3: "code_lines (py ''{ return 1; }'') = [py ''return 1;'']" by code_simp
  have r: "read_text ledger_fs ledger_path = Inr ledger_source" by code_simp
  have s: "\<forall>c \<in> set ledger_source. is_scalar c" by code_simp
  have e: "encode_utf8 ledger_source = Inr (concat (map utf8_char ledger_source))"
    using s by (rule encode_utf8_scalar)
  have t: "ts_parse ledger_env (concat (map utf8_char ledger_source)) = Inr ledger_root"
    by (simp add: ledger_env_def)
  have f: "ledger_fs ledger_path \<noteq> None" by (simp add: ledger_fs_def)
  obtain chunks where p: "parse_source 10 [] ledger_source ledger_root = Inr chunks"
    using ledger_parse by blast
  have pf: "parse_file ledger_env 10 [] ledger_fs ledger_path = Inr chunks"
    using f r e t p by (auto simp: parse_file_def)
  show ?thesis
    using empty_bodies_are_dropped [OF r e t o pf] pf o x b c1 c2 c3 by simp
qed

lemma shape_parse:
  "\<exists>i. parse_source 10 [] shape_source shape_root =
     Inr [method_info.extend
            \<lparr>method_name = py ''a'',
             method_signature = py ''public abstract int a()'',
             method_body = py ''public abstract int a();'',
             class_context = py ''Package: None, Class: S, Fields: None'',
             dependency_types = []\<rparr> \<lparr>chunk_id = i\<rparr>]"
proof -
  have cls: "find_nodes_by_type shape_root ''class_declaration'' = [shape_class]" by code_simp
  have pkg: "parser_extract_package_name (children shape_root) shape_source = py ''None''"
    by code_simp
  have nm: "parser_get_class_name shape_class = py ''S''" by code_simp
  have ctx: "format_class_context 10 [] (py ''None'') (py ''S'')
               (extract_fields shape_class shape_source)
               (get_parent_class shape_class shape_source) =
             Inr (py ''Package: None, Class: S, Fields: None'')"
    by code_simp
  have ms: "find_nodes_by_type shape_class ''method_declaration'' = [shape_area]" by code_simp
  have ks: "find_nodes_by_type shape_class ''constructor_declaration'' = []" by code_simp
  have p1: "is_public_method shape_area shape_source" by code_simp
  have i1: "extract_method_info shape_area shape_source
              (py ''Package: None, Class: S, Fields: None'') (py ''S'') False =
            Some \<lparr>method_name = py ''a'',
             method_signature = py ''public abstract int a()'',
             method_body = py ''public abstract int a();'',
             class_context = py ''Package: None, Class: S, Fields: None'',
             dependency_types = []\<rparr>" by code_simp
  have e1: "\<not> is_empty_method (py ''public abstract int a();'')" by code_simp
  have s1: "\<forall>c \<in> set (py ''Package: None, Class: S, Fields: None'' @ py ''::'' @
              py ''public abstract int a()''). is_scalar c" by code_simp
  obtain i where d1: "declaration_chunks shape_source
       (py ''Package: None, Class: S, Fields: None'') (py ''S'') False shape_area =
      Inr [method_info.extend
            \<lparr>method_name = py ''a'',
             method_signature = py ''public abstract int a()'',
             method_body = py ''public abstract int a();'',
             class_context = py ''Package: None, Class: S, Fields: None'',
             dependency_types = []\<rparr> \<lparr>chunk_id = i\<rparr>]"
    using declaration_chunks_value [OF p1 i1] e1 s1 by auto
  show ?thesis
    by (rule exI [where x = i])
       (simp add: parse_source_def class_chunks_def Let_def cls pkg nm ctx ms ks d1)
qed

text \<open>The abstract method of \<open>S.java\<close> is public and has no block, so its body has
  no line of code; \<open>parse_file\<close> keeps it, with the text of the declaration as body.\<close>

theorem declaration_without_block_is_kept:
  "filter (\<lambda>c. ntype c \<in> {''block'', ''constructor_body''}) (children shape_area) = [] \<and>
   find_nodes_by_type shape_root ''method_declaration'' = [shape_area] \<and>
   offsets_agree shape_source shape_root \<and>
   \<not> isl (parse_source 10 [] shape_source shape_root) \<and>
   names_and_bodies (projr (parse_source 10 [] shape_source shape_root)) =
     [(py ''a'', py ''public abstract int a();'')]"
proof -
  have a: "filter (\<lambda>c. ntype c \<in> {''block'', ''constructor_body''}) (children shape_area) = []"
    by code_simp
  have b: "find_nodes_by_type shape_root ''method_declaration'' = [shape_area]" by code_simp
  have o: "offsets_agree shape_source shape_root" by code_simp
  obtain i where p: "parse_source 10 [] shape_source shape_root =
     Inr [method_info.extend
            \<lparr>method_name = py ''a'',
             method_signature = py ''public abstract int a()'',
             method_body = py ''public abstract int a();'',
             class_context = py ''Package: None, Class: S, Fields: None'',
             dependency_types = []\<rparr> \<lparr>chunk_id = i\<rparr>]"
    using shape_parse by blast
  show ?thesis
    using a b o by (simp add: p names_and_bodies_def method_info.defs)
qed

lemma find_none: "(\<forall>c\<in>set cs. \<not> P c) \<Longrightarrow> find P cs = None"
  by (induction cs) auto

lemma list_ex_none: "(\<forall>c\<in>set cs. \<not> P c) \<Longrightarrow> \<not> list_ex (\<lambda>c. P c \<and> Q c) cs"
  by (induction cs) auto

text \<open>
  C9.  A method or constructor declaration without a modifiers node is not public for the
  parser and for the scanner: it adds no chunk, the chunks of any list of declarations are
  the same with or without it, and the scanner records the same names with or without it.
\<close>

theorem no_modifiers_is_not_public:
  "(\<forall>c\<in>set (children m). ntype c \<noteq> ''modifiers'') \<longrightarrow>
     \<not> is_public_method m src \<and>
     declaration_chunks src ctx cn ic m = Inr [] \<and>
     collect (declaration_chunks src ctx cn ic) (ms @ m # ms') =
       collect (declaration_chunks src ctx cn ic) (ms @ ms') \<and>
     \<not> is_public_method_decl src m \<and>
     public_names_loop src (ms @ m # ms') names = public_names_loop src (ms @ ms') names"
proof (intro impI conjI)
  assume nm: "\<forall>c\<in>set (children m). ntype c \<noteq> ''modifiers''"
  then have f: "find (\<lambda>c. ntype c = ''modifiers'') (children m) = None"
    by (intro find_none) simp
  then show np: "\<not> is_public_method m src"
    by (simp add: is_public_method_def)
  then show dc: "declaration_chunks src ctx cn ic m = Inr []"
    by (simp add: declaration_chunks_def)
  then show "collect (declaration_chunks src ctx cn ic) (ms @ m # ms') =
       collect (declaration_chunks src ctx cn ic) (ms @ ms')"
    by (rule collect_skip)
  from nm show nd: "\<not> is_public_method_decl src m"
    by (simp add: is_public_method_decl_def has_public_modifier_def list_ex_none)
  then show "public_names_loop src (ms @ m # ms') names = public_names_loop src (ms @ ms') names"
    by (simp add: public_names_loop_eq)
qed

theorem no_modifiers_is_not_public_witness:
  "list_all (\<lambda>c. ntype c \<noteq> ''modifiers'') (children calc_sub) \<and>
   \<not> is_public_method calc_sub calc_source \<and>
   declaration_chunks calc_source (py ''Package: None, Class: Calc, Fields: None'') (py ''Calc'')
     False calc_sub = Inr [] \<and>
   public_names_loop calc_source [calc_add1, calc_add2, calc_sub] [] =
     public_names_loop calc_source [calc_add1, calc_add2] [] \<and>
   get_public_method_names calc_class calc_source = [py ''add'', py ''add'']"
proof -
  have a: "list_all (\<lambda>c. ntype c \<noteq> ''modifiers'') (children calc_sub)" by code_simp
  then have b: "\<forall>c\<in>set (children calc_sub). ntype c \<noteq> ''modifiers''"
    by (simp add: list_all_iff)
  have c: "get_public_method_names calc_class calc_source = [py ''add'', py ''add'']"
    by code_simp
  show ?thesis
    using no_modifiers_is_not_public
            [where m = calc_sub and src = calc_source and ms = "[calc_add1, calc_add2]"
               and ms' = "[]" and names = "[]" and cn = "py ''Calc''" and ic = False
               and ctx = "py ''Package: None, Class: Calc, Fields: None''"] a b c
    by simp
qed

lemma find_as_filter: "find P xs = (case filter P xs of [] \<Rightarrow> None | x # r \<Rightarrow> Some x)"
  by (induction xs) auto

lemma map_of_as_filter:
  "map_of hm p = (case filter (\<lambda>entry. fst entry = p) hm of [] \<Rightarrow> None | e # r \<Rightarrow> Some (snd e))"
  by (induction hm) auto

lemma lookup_parent_resolve: "lookup_parent hm p = resolve hm p"
  unfolding lookup_parent_def resolve_def map_of_as_filter find_as_filter case_prod_unfold
  by (simp split: list.splits)

lemma resolve_Nil: "resolve [] p = None"
  by (simp add: resolve_def)

lemma inherited_records:
  "ancestor_records hm p infos \<Longrightarrow> length infos < frames \<Longrightarrow>
   get_inherited_methods frames hm p = Inr (concat (map methods infos))"
proof (induction arbitrary: frames rule: ancestor_records.induct)
  case (not_in_map hm p)
  then obtain n where "frames = Suc n" by (cases frames) auto
  with not_in_map show ?case by (simp add: lookup_parent_resolve)
next
  case (last_ancestor hm p info)
  then obtain n where "frames = Suc n" by (cases frames) auto
  moreover have "hm \<noteq> []" using last_ancestor.hyps(1) resolve_Nil by auto
  ultimately show ?case using last_ancestor by (simp add: lookup_parent_resolve)
next
  case (next_ancestor hm p info infos)
  then obtain n where n: "frames = Suc n" by (cases frames) auto
  have ne: "hm \<noteq> []" using next_ancestor.hyps(1) resolve_Nil by auto
  have "length infos < n" using next_ancestor.prems n by simp
  then have "get_inherited_methods n hm (the (parent info)) = Inr (concat (map methods infos))"
    by (rule next_ancestor.IH)
  then show ?case using n ne next_ancestor.hyps by (simp add: lookup_parent_resolve)
qed

lemma cut_at_generics:
  "(if 60 \<in> set nm then hd (split_on 60 nm) else nm) = takeWhile (\<lambda>ch. ch \<noteq> 60) nm"
proof (cases "60 \<in> set nm")
  case True
  then show ?thesis by (simp add: hd_split_on)
next
  case False
  then have "takeWhile (\<lambda>ch. ch \<noteq> 60) nm = nm"
    unfolding takeWhile_eq_all_conv by auto
  then show ?thesis using False by (simp only: if_False)
qed

lemma parent_of_children_eq:
  "parent_of_children src cs =
     (case concat (map (\<lambda>c. filter (\<lambda>sc. ntype sc \<in> set superclass_types) (children c))
                     (filter (\<lambda>c. ntype c = ''superclass'') cs)) of
        [] \<Rightarrow> None
      | sc # rest \<Rightarrow> Some (strip (takeWhile (\<lambda>ch. ch \<noteq> 60) (node_source src sc))))"
proof (induction cs)
  case Nil
  then show ?case by simp
next
  case (Cons c cs)
  show ?case
  proof (cases "ntype c = ''superclass''")
    case False
    then show ?thesis using Cons by simp
  next
    case True
    show ?thesis
    proof (cases "filter (\<lambda>sc. ntype sc \<in> set superclass_types) (children c)")
      case Nil
      then show ?thesis using True Cons by (simp add: find_as_filter)
    next
      case (Cons sc r)
      then show ?thesis using True by (simp add: find_as_filter Let_def cut_at_generics)
    qed
  qed
qed

lemma get_parent_class_text:
  assumes "offsets_agree src class_node"
  shows "get_parent_class class_node src = declared_parent class_node"
proof (cases "concat (map (\<lambda>c. filter (\<lambda>sc. ntype sc \<in> set superclass_types) (children c))
                     (filter (\<lambda>c. ntype c = ''superclass'') (children class_node)))")
  case Nil
  then show ?thesis
    by (simp only: get_parent_class_def declared_parent_def parent_of_children_eq list.case)
next
  case (Cons sc rest)
  then have "sc \<in> set (concat (map (\<lambda>c. filter (\<lambda>sc. ntype sc \<in> set superclass_types) (children c))
                     (filter (\<lambda>c. ntype c = ''superclass'') (children class_node))))"
    by simp
  then obtain c where "c \<in> set (children class_node)" "sc \<in> set (children c)" by auto
  then have "node_source src sc = node_text sc"
    using assms by (blast intro: offsets_agree_child offsets_agree_self)
  then show ?thesis
    by (simp only: get_parent_class_def declared_parent_def parent_of_children_eq Cons list.case)
qed

lemma declaration_chunks_context:
  "declaration_chunks src ctx cn ic m = Inr cs \<Longrightarrow> list_all (\<lambda>c. class_context c = ctx) cs"
  by (auto simp: declaration_chunks_def extract_method_info_def Let_def method_info.defs
           split: if_splits option.splits sum.splits)

lemma collect_all:
  assumes "collect f xs = Inr ys"
      and "\<And>x cs. x \<in> set xs \<Longrightarrow> f x = Inr cs \<Longrightarrow> list_all P cs"
  shows "list_all P ys"
  using assms
proof (induction xs arbitrary: ys)
  case Nil
  then show ?case by simp
next
  case (Cons x xs)
  obtain a b where a: "f x = Inr a" and b: "collect f xs = Inr b" and y: "ys = a @ b"
    using Cons.prems(1) by (auto split: sum.splits)
  have "list_all P a" using Cons.prems(2) [of x a] a by simp
  moreover have "list_all P b"
  proof (rule Cons.IH [OF b])
    fix z cs assume "z \<in> set xs" "f z = Inr cs"
    then show "list_all P cs" using Cons.prems(2) [of z cs] by simp
  qed
  ultimately show ?case using y by simp
qed

lemma class_chunks_context:
  assumes "class_chunks frames hm src pkg cls = Inr cs"
      and "format_class_context frames hm pkg (parser_get_class_name cls)
             (extract_fields cls src) (get_parent_class cls src) = Inr ctx"
  shows "list_all (\<lambda>c. class_context c = ctx) cs"
proof -
  obtain ms ks where
    m: "collect (declaration_chunks src ctx (parser_get_class_name cls) False)
          (find_nodes_by_type cls ''method_declaration'') = Inr ms" and
    k: "collect (declaration_chunks src ctx (parser_get_class_name cls) True)
          (find_nodes_by_type cls ''constructor_declaration'') = Inr ks" and
    c: "cs = ms @ ks"
    using assms by (auto simp: class_chunks_def Let_def split: sum.splits)
  have "list_all (\<lambda>c. class_context c = ctx) ms"
    using m by (rule collect_all) (rule declaration_chunks_context)
  moreover have "list_all (\<lambda>c. class_context c = ctx) ks"
    using k by (rule collect_all) (rule declaration_chunks_context)
  ultimately show ?thesis using c by simp
qed

text \<open>
  C2 (as amended).  Take a class declaration in a source in which the byte range of every
  node, read as character offsets, gives the text of the node, and let its extends clause
  name a parent whose ancestor records in the hierarchy map are finite and within the
  recursion limit.  Then the class context that \<open>parse_file\<close> computes for the class,
  and gives to every chunk of the class, is the base context, then \<open>Extends\<close> with
  the parent, then, only if the methods recorded along the ancestors are not all empty,
  \<open>Inherited Methods\<close> with those methods: the parent's first, in recorded order, then
  each further ancestor's.  The parent resolves to the record under its name as key, else
  to the first entry whose simple name is the parent or whose key ends in a dot and the
  parent; when it does not resolve there is no ancestor record, and the context ends after
  the \<open>Extends\<close> clause.
\<close>

theorem class_context_inheritance:
  assumes "offsets_agree source_code class_node"
      and "declared_parent class_node = Some p" and "p \<noteq> []"
      and "ancestor_records hm p infos" and "length infos < frames"
  shows "format_class_context frames hm package_name (parser_get_class_name class_node)
           (extract_fields class_node source_code) (get_parent_class class_node source_code) =
         Inr (base_context package_name (parser_get_class_name class_node)
                (extract_fields class_node source_code) @ inheritance_clause p infos) \<and>
         list_all (\<lambda>c. class_context c =
                     base_context package_name (parser_get_class_name class_node)
                       (extract_fields class_node source_code) @ inheritance_clause p infos)
           (chunks_of (class_chunks frames hm source_code package_name class_node)) \<and>
         (resolve hm p = None) = (infos = [])"
proof (intro conjI)
  have g: "get_parent_class class_node source_code = Some p"
    using assms(1,2) by (simp add: get_parent_class_text)
  have i: "get_inherited_methods frames hm p = Inr (concat (map methods infos))"
    using assms(4,5) by (rule inherited_records)
  show f: "format_class_context frames hm package_name (parser_get_class_name class_node)
           (extract_fields class_node source_code) (get_parent_class class_node source_code) =
         Inr (base_context package_name (parser_get_class_name class_node)
                (extract_fields class_node source_code) @ inheritance_clause p infos)"
    using assms(3) by (simp add: g i format_class_context_def Let_def inheritance_clause_def)
  show "list_all (\<lambda>c. class_context c =
                     base_context package_name (parser_get_class_name class_node)
                       (extract_fields class_node source_code) @ inheritance_clause p infos)
           (chunks_of (class_chunks frames hm source_code package_name class_node))"
  proof (cases "class_chunks frames hm source_code package_name class_node")
    case (Inl e)
    then show ?thesis by (simp add: chunks_of_def)
  next
    case (Inr cs)
    then show ?thesis using class_chunks_context [OF Inr f] by (simp add: chunks_of_def)
  qed
  show "(resolve hm p = None) = (infos = [])"
    using assms(4) by (auto elim: ancestor_records.cases)
qed

lemma zoo_animal_records: "ancestor_records zoo_map (py ''Animal'') [animal_record]"
proof (rule ancestor_records.last_ancestor)
  show "resolve zoo_map (py ''Animal'') = Some animal_record" by code_simp
  show "\<not> truthy (parent animal_record)" by (simp add: animal_record_def)
qed

lemma zoo_dog_records: "ancestor_records zoo_map (py ''Dog'') [dog_record, animal_record]"
proof (rule ancestor_records.next_ancestor)
  show "resolve zoo_map (py ''Dog'') = Some dog_record" by code_simp
  show "truthy (parent dog_record)" by (simp add: dog_record_def py_def)
  show "ancestor_records zoo_map (the (parent dog_record)) [animal_record]"
    using zoo_animal_records by (simp add: dog_record_def)
qed

lemma marker_animal_records: "ancestor_records marker_map (py ''Animal'') []"
proof (rule ancestor_records.not_in_map)
  show "resolve marker_map (py ''Animal'') = None" by code_simp
qed

theorem class_context_inheritance_witness:
  "offsets_agree dog_source dog_class \<and>
   declared_parent dog_class = Some (py ''Animal'') \<and>
   ancestor_records zoo_map (py ''Animal'') [animal_record] \<and>
   format_class_context 1000 zoo_map (py ''zoo'') (parser_get_class_name dog_class)
     (extract_fields dog_class dog_source) (get_parent_class dog_class dog_source) =
     Inr (py ''Package: zoo, Class: Dog, Fields: None, Extends: Animal, Inherited Methods: [eat, sleep, getName, makeSound]'') \<and>
   \<not> isl (class_chunks 1000 zoo_map dog_source (py ''zoo'') dog_class) \<and>
   map method_name (projr (class_chunks 1000 zoo_map dog_source (py ''zoo'') dog_class)) =
     [py ''bark''] \<and>
   map class_context (projr (class_chunks 1000 zoo_map dog_source (py ''zoo'') dog_class)) =
     [py ''Package: zoo, Class: Dog, Fields: None, Extends: Animal, Inherited Methods: [eat, sleep, getName, makeSound]''] \<and>
   offsets_agree puppy_source puppy_class \<and>
   declared_parent puppy_class = Some (py ''Dog'') \<and>
   ancestor_records zoo_map (py ''Dog'') [dog_record, animal_record] \<and>
   format_class_context 1000 zoo_map (py ''zoo'') (parser_get_class_name puppy_class)
     (extract_fields puppy_class puppy_source) (get_parent_class puppy_class puppy_source) =
     Inr (py ''Package: zoo, Class: Puppy, Fields: None, Extends: Dog, Inherited Methods: [bark, eat, sleep, getName, makeSound]'') \<and>
   resolve marker_map (py ''Animal'') = None \<and>
   format_class_context 1000 marker_map (py ''zoo'') (parser_get_class_name dog_class)
     (extract_fields dog_class dog_source) (get_parent_class dog_class dog_source) =
     Inr (py ''Package: zoo, Class: Dog, Fields: None, Extends: Animal'')"
proof -
  let ?ctx = "py ''Package: zoo, Class: Dog, Fields: None, Extends: Animal, Inherited Methods: [eat, sleep, getName, makeSound]''"
  have o1: "offsets_agree dog_source dog_class" by code_simp
  have o2: "offsets_agree puppy_source puppy_class" by code_simp
  have p1: "declared_parent dog_class = Some (py ''Animal'')" by code_simp
  have p2: "declared_parent puppy_class = Some (py ''Dog'')" by code_simp
  have n: "py ''Animal'' \<noteq> []" "py ''Dog'' \<noteq> []" by (simp_all add: py_def)
  have r: "resolve marker_map (py ''Animal'') = None" by code_simp
  have e1: "base_context (py ''zoo'') (parser_get_class_name dog_class)
              (extract_fields dog_class dog_source) @
            inheritance_clause (py ''Animal'') [animal_record] = ?ctx"
    by code_simp
  have e2: "base_context (py ''zoo'') (parser_get_class_name puppy_class)
              (extract_fields puppy_class puppy_source) @
            inheritance_clause (py ''Dog'') [dog_record, animal_record] =
            py ''Package: zoo, Class: Puppy, Fields: None, Extends: Dog, Inherited Methods: [bark, eat, sleep, getName, makeSound]''"
    by code_simp
  have e3: "base_context (py ''zoo'') (parser_get_class_name dog_class)
              (extract_fields dog_class dog_source) @
            inheritance_clause (py ''Animal'') [] =
            py ''Package: zoo, Class: Dog, Fields: None, Extends: Animal''"
    by code_simp
  note t1 = class_context_inheritance
              [where source_code = dog_source and class_node = dog_class and p = "py ''Animal''"
                 and hm = zoo_map and infos = "[animal_record]" and frames = 1000
                 and package_name = "py ''zoo''", OF o1 p1 n(1) zoo_animal_records, unfolded e1]
  note t2 = class_context_inheritance
              [where source_code = puppy_source and class_node = puppy_class and p = "py ''Dog''"
                 and hm = zoo_map and infos = "[dog_record, animal_record]" and frames = 1000
                 and package_name = "py ''zoo''", OF o2 p2 n(2) zoo_dog_records, unfolded e2]
  note t3 = class_context_inheritance
              [where source_code = dog_source and class_node = dog_class and p = "py ''Animal''"
                 and hm = marker_map and infos = "[]" and frames = 1000
                 and package_name = "py ''zoo''", OF o1 p1 n(1) marker_animal_records, unfolded e3]
  have f1: "format_class_context 1000 zoo_map (py ''zoo'') (parser_get_class_name dog_class)
     (extract_fields dog_class dog_source) (get_parent_class dog_class dog_source) = Inr ?ctx"
    using t1 by simp
  have f2: "format_class_context 1000 zoo_map (py ''zoo'') (parser_get_class_name puppy_class)
     (extract_fields puppy_class puppy_source) (get_parent_class puppy_class puppy_source) =
     Inr (py ''Package: zoo, Class: Puppy, Fields: None, Extends: Dog, Inherited Methods: [bark, eat, sleep, getName, makeSound]'')"
    using t2 by simp
  have f3: "format_class_context 1000 marker_map (py ''zoo'') (parser_get_class_name dog_class)
     (extract_fields dog_class dog_source) (get_parent_class dog_class dog_source) =
     Inr (py ''Package: zoo, Class: Dog, Fields: None, Extends: Animal'')"
    using t3 by simp
  have ms: "find_nodes_by_type dog_class ''method_declaration'' = [dog_bark]" by code_simp
  have ks: "find_nodes_by_type dog_class ''constructor_declaration'' = []" by code_simp
  have pb: "is_public_method dog_bark dog_source" by code_simp
  have ib: "extract_method_info dog_bark dog_source ?ctx (parser_get_class_name dog_class) False =
            Some \<lparr>method_name = py ''bark'',
                  method_signature = py ''public void bark()'',
                  method_body = py ''{ run(); }'',
                  class_context = ?ctx,
                  dependency_types = []\<rparr>"
    by code_simp
  have eb: "\<not> is_empty_method (py ''{ run(); }'')" by code_simp
  have sb: "\<forall>c \<in> set (?ctx @ py ''::'' @ py ''public void bark()''). is_scalar c" by code_simp
  obtain i where d: "declaration_chunks dog_source ?ctx (parser_get_class_name dog_class) False dog_bark =
      Inr [method_info.extend
            \<lparr>method_name = py ''bark'',
             method_signature = py ''public void bark()'',
             method_body = py ''{ run(); }'',
             class_context = ?ctx,
             dependency_types = []\<rparr> \<lparr>chunk_id = i\<rparr>]"
    using declaration_chunks_value [OF pb ib] eb sb by auto
  have c: "class_chunks 1000 zoo_map dog_source (py ''zoo'') dog_class =
      Inr [method_info.extend
            \<lparr>method_name = py ''bark'',
             method_signature = py ''public void bark()'',
             method_body = py ''{ run(); }'',
             class_context = ?ctx,
             dependency_types = []\<rparr> \<lparr>chunk_id = i\<rparr>]"
    by (simp add: class_chunks_def Let_def f1 ms ks d)
  show ?thesis
    using o1 o2 p1 p2 zoo_animal_records zoo_dog_records r f1 f2 f3 t1
    by (simp add: c chunks_of_def method_info.defs)
qed

text \<open>A parent that resolves in the map but has no recorded public method: the context
  has the \<open>Extends\<close> clause and no \<open>Inherited Methods\<close> clause.\<close>

theorem resolved_parent_without_methods:
  "lookup_parent marker_map (py ''Base'') = Some base_record \<and>
   format_class_context 1000 marker_map (py ''None'') (py ''Impl'') [] (Some (py ''Base'')) =
     Inr (py ''Package: None, Class: Impl, Fields: None, Extends: Base'') \<and>
   \<not> contains (py ''Package: None, Class: Impl, Fields: None, Extends: Base'')
        (py ''Inherited Methods'')"
  by code_simp

section \<open>Properties of the ingestion loop\<close>

lemma flush_buffer_fields:
  "flush_buffer cs st buf = (st2, en) \<Longrightarrow>
     counters st2 = counters st \<and> buffer st2 = buffer st \<and>
     all_enriched_chunks st2 = all_enriched_chunks st \<and> write_calls st2 = write_calls st \<and>
     concat (enrich_calls st2) = concat (enrich_calls st) @ buf \<and>
     concat (enrich_results st2) = concat (enrich_results st) @ en"
  by (auto simp: flush_buffer_def split: if_splits prod.splits sum.splits)

lemma write_fields:
  "files_processed (counters (write_to_db_sequential cs st en)) = files_processed (counters st)"
  "files_failed (counters (write_to_db_sequential cs st en)) = files_failed (counters st)"
  "total_files (counters (write_to_db_sequential cs st en)) = total_files (counters st)"
  "buffer (write_to_db_sequential cs st en) = buffer st"
  "all_enriched_chunks (write_to_db_sequential cs st en) = all_enriched_chunks st"
  "enrich_calls (write_to_db_sequential cs st en) = enrich_calls st"
  "enrich_results (write_to_db_sequential cs st en) = enrich_results st"
  "write_calls (write_to_db_sequential cs st en) =
     (if en = [] then write_calls st else write_calls st @ [en])"
  by (auto simp: write_to_db_sequential_def split: prod.splits option.splits)

lemma process_file_step:
  assumes "process_file cs bs st f = st'"
  shows "files_processed (counters st') + files_failed (counters st') =
           files_processed (counters st) + files_failed (counters st) + 1"
    and "files_failed (counters st') = files_failed (counters st) + (if isl (parse cs f) then 1 else 0)"
    and "total_files (counters st') = total_files (counters st)"
    and "concat (enrich_calls st') @ buffer st' =
           concat (enrich_calls st) @ buffer st @ parsed_chunks cs [f]"
    and "accounted st \<Longrightarrow> accounted st'"
    and "below_threshold bs st \<Longrightarrow> below_threshold bs st'"
proof -
  show "files_processed (counters st') + files_failed (counters st') =
           files_processed (counters st) + files_failed (counters st) + 1"
    using assms
    by (auto simp: process_file_def Let_def write_fields split: sum.splits prod.splits if_splits
             dest!: flush_buffer_fields)
  show "files_failed (counters st') = files_failed (counters st) + (if isl (parse cs f) then 1 else 0)"
    using assms
    by (auto simp: process_file_def Let_def write_fields split: sum.splits prod.splits if_splits
             dest!: flush_buffer_fields)
  show "total_files (counters st') = total_files (counters st)"
    using assms
    by (auto simp: process_file_def Let_def write_fields split: sum.splits prod.splits if_splits
             dest!: flush_buffer_fields)
  show "concat (enrich_calls st') @ buffer st' =
           concat (enrich_calls st) @ buffer st @ parsed_chunks cs [f]"
    using assms
    by (auto simp: process_file_def parsed_chunks_def Let_def write_fields
             split: sum.splits prod.splits if_splits
             dest!: flush_buffer_fields)
  show "accounted st \<Longrightarrow> accounted st'"
    using assms
    by (auto simp: process_file_def accounted_def Let_def write_fields
             split: sum.splits prod.splits if_splits
             dest!: flush_buffer_fields)
  show "below_threshold bs st \<Longrightarrow> below_threshold bs st'"
    using assms
    by (auto simp: process_file_def below_threshold_def Let_def write_fields
             split: sum.splits prod.splits if_splits
             dest!: flush_buffer_fields)
qed

lemma parsed_chunks_Cons:
  "parsed_chunks cs (f # files) = parsed_chunks cs [f] @ parsed_chunks cs files"
  by (simp add: parsed_chunks_def)

lemma loop_properties:
  "files_processed (counters (foldl (process_file cs bs) st files)) +
     files_failed (counters (foldl (process_file cs bs) st files)) =
       files_processed (counters st) + files_failed (counters st) + length files \<and>
   files_failed (counters (foldl (process_file cs bs) st files)) =
     files_failed (counters st) + length (filter (\<lambda>f. isl (parse cs f)) files) \<and>
   total_files (counters (foldl (process_file cs bs) st files)) = total_files (counters st) \<and>
   concat (enrich_calls (foldl (process_file cs bs) st files)) @
     buffer (foldl (process_file cs bs) st files) =
       concat (enrich_calls st) @ buffer st @ parsed_chunks cs files \<and>
   (accounted st \<longrightarrow> accounted (foldl (process_file cs bs) st files)) \<and>
   (below_threshold bs st \<longrightarrow> below_threshold bs (foldl (process_file cs bs) st files))"
proof (induction files arbitrary: st)
  case Nil
  then show ?case by (simp add: parsed_chunks_def)
next
  case (Cons f files)
  note step = process_file_step [OF refl, where cs = cs and bs = bs and st = st and f = f]
  note ih = Cons.IH [where st = "process_file cs bs st f"]
  show ?case
    using ih step by (simp add: parsed_chunks_Cons [where f = f and files = files])
qed

lemma list_all_butlast: "list_all P xs \<Longrightarrow> list_all P (butlast xs)"
  by (induction xs) auto

lemma after_loop:
  fixes cs :: "('c, 'e, 'w) collaborators"
  shows
  "files_processed (counters (foldl (process_file cs bs) (start_run (init_pipeline w) files) files)) +
     files_failed (counters (foldl (process_file cs bs) (start_run (init_pipeline w) files) files)) =
       length files"
  and "files_failed (counters (foldl (process_file cs bs) (start_run (init_pipeline w) files) files)) =
     length (filter (\<lambda>f. isl (parse cs f)) files)"
  and "total_files (counters (foldl (process_file cs bs) (start_run (init_pipeline w) files) files)) =
     length files"
  and "concat (enrich_calls (foldl (process_file cs bs) (start_run (init_pipeline w) files) files)) @
     buffer (foldl (process_file cs bs) (start_run (init_pipeline w) files) files) =
       parsed_chunks cs files"
  and "accounted (foldl (process_file cs bs) (start_run (init_pipeline w) files) files)"
  and "below_threshold bs (foldl (process_file cs bs) (start_run (init_pipeline w) files) files)"
proof -
  have i: "accounted (start_run (init_pipeline w :: ('c, 'e, 'w) pipeline) files)"
          "below_threshold bs (start_run (init_pipeline w :: ('c, 'e, 'w) pipeline) files)"
    by (simp_all add: start_run_def accounted_def below_threshold_def init_pipeline_def)
  note lp = loop_properties
              [where cs = cs and bs = bs and st = "start_run (init_pipeline w) files"
                 and files = files]
  show "files_processed (counters (foldl (process_file cs bs) (start_run (init_pipeline w) files) files)) +
     files_failed (counters (foldl (process_file cs bs) (start_run (init_pipeline w) files) files)) =
       length files"
    using lp by (simp add: start_run_def init_pipeline_def)
  show "files_failed (counters (foldl (process_file cs bs) (start_run (init_pipeline w) files) files)) =
     length (filter (\<lambda>f. isl (parse cs f)) files)"
    using lp by (simp add: start_run_def init_pipeline_def)
  show "total_files (counters (foldl (process_file cs bs) (start_run (init_pipeline w) files) files)) =
     length files"
    using lp by (simp add: start_run_def init_pipeline_def)
  show "concat (enrich_calls (foldl (process_file cs bs) (start_run (init_pipeline w) files) files)) @
     buffer (foldl (process_file cs bs) (start_run (init_pipeline w) files) files) =
       parsed_chunks cs files"
    using lp by (simp add: start_run_def init_pipeline_def)
  show "accounted (foldl (process_file cs bs) (start_run (init_pipeline w) files) files)"
    using lp i by simp
  show "below_threshold bs (foldl (process_file cs bs) (start_run (init_pipeline w) files) files)"
    using lp i by simp
qed

text \<open>
  C10.  After \<open>phase2_ingestion_loop\<close>, started in the state that \<open>__init__\<close> sets
  up, the counters satisfy \<open>files_processed + files_failed = total_files\<close>, where
  \<open>total_files\<close> is the length of the list of files and \<open>files_failed\<close> is the number
  of files whose parsing raised: every file increments exactly one of the two counters.
\<close>

theorem stats_counters_partition:
  "files_processed (counters (phase2_ingestion_loop cs batch_size (init_pipeline w) java_files)) +
   files_failed (counters (phase2_ingestion_loop cs batch_size (init_pipeline w) java_files)) =
     total_files (counters (phase2_ingestion_loop cs batch_size (init_pipeline w) java_files)) \<and>
   total_files (counters (phase2_ingestion_loop cs batch_size (init_pipeline w) java_files)) =
     length java_files \<and>
   files_failed (counters (phase2_ingestion_loop cs batch_size (init_pipeline w) java_files)) =
     length (filter (\<lambda>f. isl (parse cs f)) java_files)"
  using after_loop(1,2,3) [where cs = cs and bs = batch_size and w = w and files = java_files]
  by (auto simp: phase2_ingestion_loop_def Let_def write_fields
           split: prod.splits dest!: flush_buffer_fields)

lemma storage_writes_append:
  "storage_writes (calls @ rest) = storage_writes calls @ storage_writes rest"
  by (induction calls rule: storage_writes.induct) simp_all

lemma parsed_chunks_recording: "parsed_chunks (recording cs) files = parsed_chunks cs files"
  by (simp add: parsed_chunks_def recording_def)

lemma flush_buffer_recording:
  "without_calls (fst (flush_buffer (recording cs) st buf)) = fst (flush_buffer cs (without_calls st) buf)"
  "snd (flush_buffer (recording cs) st buf) = snd (flush_buffer cs (without_calls st) buf)"
  "calls_agree st \<Longrightarrow> calls_agree (fst (flush_buffer (recording cs) st buf))"
  by (auto simp: flush_buffer_def recording_def without_calls_def calls_agree_def
                 storage_writes_append
           split: prod.splits sum.splits)

lemma write_recording:
  "without_calls (write_to_db_sequential (recording cs) st en) =
     write_to_db_sequential cs (without_calls st) en"
  "calls_agree st \<Longrightarrow> calls_agree (write_to_db_sequential (recording cs) st en)"
  by (auto simp: write_to_db_sequential_def recording_def without_calls_def calls_agree_def
                 storage_writes_append
           split: prod.splits option.splits)

lemma without_calls_fields:
  "buffer (without_calls st) = buffer st"
  "all_enriched_chunks (without_calls st) = all_enriched_chunks st"
  "counters (without_calls st) = counters st"
  "error_log (without_calls st) = error_log st"
  "world (without_calls st) = fst (world st)"
  by (simp_all add: without_calls_def)

lemma without_calls_update:
  "without_calls (st\<lparr>all_enriched_chunks := a\<rparr>) = (without_calls st)\<lparr>all_enriched_chunks := a\<rparr>"
  "without_calls (st\<lparr>buffer := b\<rparr>) = (without_calls st)\<lparr>buffer := b\<rparr>"
  "without_calls (st\<lparr>counters := c\<rparr>) = (without_calls st)\<lparr>counters := c\<rparr>"
  "without_calls (st\<lparr>error_log := l\<rparr>) = (without_calls st)\<lparr>error_log := l\<rparr>"
  by (simp_all add: without_calls_def)

lemma calls_agree_update:
  "calls_agree (st\<lparr>all_enriched_chunks := a\<rparr>) = calls_agree st"
  "calls_agree (st\<lparr>buffer := b\<rparr>) = calls_agree st"
  "calls_agree (st\<lparr>counters := c\<rparr>) = calls_agree st"
  "calls_agree (st\<lparr>error_log := l\<rparr>) = calls_agree st"
  by (simp_all add: calls_agree_def)

lemma flush_buffer_keeps:
  "all_enriched_chunks (fst (flush_buffer cs st buf)) = all_enriched_chunks st"
  "buffer (fst (flush_buffer cs st buf)) = buffer st"
  by (auto simp: flush_buffer_def split: prod.splits sum.splits)

lemma process_file_recording:
  "without_calls (process_file (recording cs) bs st f) = process_file cs bs (without_calls st) f"
  "calls_agree st \<Longrightarrow> calls_agree (process_file (recording cs) bs st f)"
proof -
  have p: "parse (recording cs) f = parse cs f" by (simp add: recording_def)
  show "without_calls (process_file (recording cs) bs st f) = process_file cs bs (without_calls st) f"
    unfolding process_file_def p
    by (cases "parse cs f")
       (simp_all add: Let_def without_calls_update without_calls_fields write_recording
                      flush_buffer_recording flush_buffer_keeps split_beta)
  show "calls_agree st \<Longrightarrow> calls_agree (process_file (recording cs) bs st f)"
    unfolding process_file_def p
    by (cases "parse cs f")
       (simp_all add: Let_def calls_agree_update write_recording flush_buffer_recording flush_buffer_keeps split_beta)
qed

lemma loop_recording:
  "without_calls (foldl (process_file (recording cs) bs) st files) =
     foldl (process_file cs bs) (without_calls st) files"
  "calls_agree st \<Longrightarrow> calls_agree (foldl (process_file (recording cs) bs) st files)"
  by (induction files arbitrary: st) (simp_all add: process_file_recording)

lemma start_recording:
  "without_calls (start_run (init_pipeline (w, [])) files) = start_run (init_pipeline w) files"
  "calls_agree (start_run (init_pipeline (w, [])) files)"
  by (simp_all add: start_run_def init_pipeline_def without_calls_def calls_agree_def)

lemma run_recording:
  "without_calls (phase2_ingestion_loop (recording cs) bs (init_pipeline (w, [])) files) =
     phase2_ingestion_loop cs bs (init_pipeline w) files"
  "calls_agree (phase2_ingestion_loop (recording cs) bs (init_pipeline (w, [])) files)"
proof -
  let ?st = "foldl (process_file (recording cs) bs) (start_run (init_pipeline (w, [])) files) files"
  have w: "foldl (process_file cs bs) (start_run (init_pipeline w) files) files = without_calls ?st"
    by (simp add: loop_recording start_recording)
  have a: "calls_agree ?st" by (simp add: loop_recording start_recording)
  show "without_calls (phase2_ingestion_loop (recording cs) bs (init_pipeline (w, [])) files) =
     phase2_ingestion_loop cs bs (init_pipeline w) files"
    unfolding phase2_ingestion_loop_def w
    by (simp add: Let_def without_calls_update without_calls_fields write_recording
                  flush_buffer_recording flush_buffer_keeps split_beta)
  show "calls_agree (phase2_ingestion_loop (recording cs) bs (init_pipeline (w, [])) files)"
    unfolding phase2_ingestion_loop_def
    using a
    by (simp add: Let_def calls_agree_update write_recording flush_buffer_recording flush_buffer_keeps split_beta)
qed

lemma logged_calls_partition:
  "concat (enrich_calls (phase2_ingestion_loop cs batch_size (init_pipeline w) java_files)) =
     parsed_chunks cs java_files \<and>
   concat (write_calls (phase2_ingestion_loop cs batch_size (init_pipeline w) java_files)) =
     concat (enrich_results (phase2_ingestion_loop cs batch_size (init_pipeline w) java_files)) \<and>
   list_all (\<lambda>c. int (length c) \<ge> batch_size * 5)
     (butlast (write_calls (phase2_ingestion_loop cs batch_size (init_pipeline w) java_files)))"
proof (intro conjI)
  note al = after_loop(4,5,6) [where cs = cs and bs = batch_size and w = w and files = java_files]
  show "concat (enrich_calls (phase2_ingestion_loop cs batch_size (init_pipeline w) java_files)) =
     parsed_chunks cs java_files"
    using al(1)
    by (auto simp: phase2_ingestion_loop_def Let_def write_fields
             split: prod.splits dest!: flush_buffer_fields)
  show "concat (write_calls (phase2_ingestion_loop cs batch_size (init_pipeline w) java_files)) =
     concat (enrich_results (phase2_ingestion_loop cs batch_size (init_pipeline w) java_files))"
    using al(2)
    by (auto simp: phase2_ingestion_loop_def Let_def write_fields accounted_def
             split: prod.splits dest!: flush_buffer_fields)
  show "list_all (\<lambda>c. int (length c) \<ge> batch_size * 5)
     (butlast (write_calls (phase2_ingestion_loop cs batch_size (init_pipeline w) java_files)))"
    using al(3)
    by (auto simp: phase2_ingestion_loop_def Let_def write_fields below_threshold_def
             split: prod.splits dest!: flush_buffer_fields intro: list_all_butlast)
qed

lemma after_files_below:
  fixes cs :: "('c, 'e, 'w) collaborators"
  shows "below_threshold batch_size (after_files cs batch_size w java_files n)"
proof -
  have i: "below_threshold batch_size (start_run (init_pipeline w :: ('c, 'e, 'w) pipeline) java_files)"
    by (simp add: start_run_def below_threshold_def init_pipeline_def)
  show ?thesis
    unfolding after_files_def
    using i loop_properties [where cs = cs and bs = batch_size
                               and st = "start_run (init_pipeline w) java_files"
                               and files = "take n java_files"]
    by simp
qed

text \<open>
  C6.  Run \<open>phase2_ingestion_loop\<close> from the state that \<open>__init__\<close> sets up, with any
  parser, enrichment collaborator and store, and list the calls that reach the two
  collaborators.  The arguments of the \<open>enrich_batch\<close> calls are, put end to end, exactly
  the chunks parsed from the files, in order, so every parsed chunk is passed to
  enrichment once.  The arguments of the \<open>add_batch\<close> calls are, put end to end, exactly
  the chunks that the \<open>enrich_batch\<close> calls returned, so every enriched chunk is passed
  to exactly one storage write.  Every write but the last is of at least five times the
  batch size, and after each file the parse buffer is empty or shorter than the batch
  size and the accumulation buffer is empty or shorter than five times the batch size.
  Listing the calls does not change the run.
\<close>

theorem no_chunk_dropped:
  fixes cs :: "('c, 'e, 'w) collaborators"
  shows
  "concat (map sent_to_enrichment (calls_of cs batch_size w java_files)) =
     parsed_chunks cs java_files \<and>
   concat (storage_writes (calls_of cs batch_size w java_files)) =
     concat (map returned_by_enrichment (calls_of cs batch_size w java_files)) \<and>
   list_all (\<lambda>en. batch_size * 5 \<le> int (length en))
     (butlast (storage_writes (calls_of cs batch_size w java_files))) \<and>
   (\<forall>n. (buffer (after_files cs batch_size w java_files n) = [] \<or>
         int (length (buffer (after_files cs batch_size w java_files n))) < batch_size) \<and>
        (all_enriched_chunks (after_files cs batch_size w java_files n) = [] \<or>
         int (length (all_enriched_chunks (after_files cs batch_size w java_files n))) <
           batch_size * 5)) \<and>
   without_calls (phase2_ingestion_loop (recording cs) batch_size (init_pipeline (w, [])) java_files) =
     phase2_ingestion_loop cs batch_size (init_pipeline w) java_files"
proof (intro conjI allI)
  note lg = logged_calls_partition
              [where cs = "recording cs" and batch_size = batch_size and w = "(w, [])"
                 and java_files = java_files]
  note ag = run_recording(2) [where cs = cs and bs = batch_size and w = w and files = java_files,
                              unfolded calls_agree_def]
  show "concat (map sent_to_enrichment (calls_of cs batch_size w java_files)) =
     parsed_chunks cs java_files"
    using lg ag by (simp add: calls_of_def parsed_chunks_recording)
  show "concat (storage_writes (calls_of cs batch_size w java_files)) =
     concat (map returned_by_enrichment (calls_of cs batch_size w java_files))"
    using lg ag by (simp add: calls_of_def)
  show "list_all (\<lambda>en. batch_size * 5 \<le> int (length en))
     (butlast (storage_writes (calls_of cs batch_size w java_files)))"
    using lg ag by (simp add: calls_of_def)
  show "without_calls (phase2_ingestion_loop (recording cs) batch_size (init_pipeline (w, [])) java_files) =
     phase2_ingestion_loop cs batch_size (init_pipeline w) java_files"
    by (rule run_recording(1))
next
  fix n
  show "buffer (after_files cs batch_size w java_files n) = [] \<or>
         int (length (buffer (after_files cs batch_size w java_files n))) < batch_size"
    using after_files_below [where cs = cs and batch_size = batch_size and w = w
                               and java_files = java_files and n = n]
    by (simp add: below_threshold_def)
  show "all_enriched_chunks (after_files cs batch_size w java_files n) = [] \<or>
         int (length (all_enriched_chunks (after_files cs batch_size w java_files n))) <
           batch_size * 5"
    using after_files_below [where cs = cs and batch_size = batch_size and w = w
                               and java_files = java_files and n = n]
    by (simp add: below_threshold_def)
qed

theorem stats_counters_partition_witness:
  "counters run_result =
     \<lparr>files_processed = 4, files_failed = 1, chunks_indexed = 7, total_files = 5\<rparr> \<and>
   length run_files = 5 \<and>
   length (filter (\<lambda>f. isl (parse run_collaborators f)) run_files) = 1 \<and>
   files_processed (counters run_result) + files_failed (counters run_result) =
     total_files (counters run_result)"
proof -
  have c: "counters run_result =
     \<lparr>files_processed = 4, files_failed = 1, chunks_indexed = 7, total_files = 5\<rparr>"
    by code_simp
  have l: "length run_files = 5" by code_simp
  have f: "length (filter (\<lambda>f. isl (parse run_collaborators f)) run_files) = 1" by code_simp
  show ?thesis
    using stats_counters_partition
            [where cs = run_collaborators and batch_size = 1 and w = 0 and java_files = run_files]
          c l f
    unfolding run_result_def by simp
qed

theorem no_chunk_dropped_witness:
  "calls_of run_collaborators 1 0 run_files =
     [Enrich [(run_file ''A.java'', 1), (run_file ''A.java'', 2), (run_file ''A.java'', 3)]
        (Inr [1, 2, 3]),
      Enrich [(run_file ''C.java'', 4)] (Inr [4]),
      Enrich [(run_file ''D.java'', 5), (run_file ''D.java'', 6)] (Inr [5, 6]),
      Store [1, 2, 3, 4, 5, 6] None,
      Enrich [(run_file ''E.java'', 7)] (Inr [7]),
      Store [7] None] \<and>
   parsed_chunks run_collaborators run_files =
     [(run_file ''A.java'', 1), (run_file ''A.java'', 2), (run_file ''A.java'', 3),
      (run_file ''C.java'', 4), (run_file ''D.java'', 5), (run_file ''D.java'', 6),
      (run_file ''E.java'', 7)] \<and>
   concat (map sent_to_enrichment (calls_of run_collaborators 1 0 run_files)) =
     parsed_chunks run_collaborators run_files \<and>
   concat (storage_writes (calls_of run_collaborators 1 0 run_files)) = [1, 2, 3, 4, 5, 6, 7] \<and>
   concat (map returned_by_enrichment (calls_of run_collaborators 1 0 run_files)) =
     [1, 2, 3, 4, 5, 6, 7]"
proof -
  have c: "calls_of run_collaborators 1 0 run_files =
     [Enrich [(run_file ''A.java'', 1), (run_file ''A.java'', 2), (run_file ''A.java'', 3)]
        (Inr [1, 2, 3]),
      Enrich [(run_file ''C.java'', 4)] (Inr [4]),
      Enrich [(run_file ''D.java'', 5), (run_file ''D.java'', 6)] (Inr [5, 6]),
      Store [1, 2, 3, 4, 5, 6] None,
      Enrich [(run_file ''E.java'', 7)] (Inr [7]),
      Store [7] None]"
    by code_simp
  have p: "parsed_chunks run_collaborators run_files =
     [(run_file ''A.java'', 1), (run_file ''A.java'', 2), (run_file ''A.java'', 3),
      (run_file ''C.java'', 4), (run_file ''D.java'', 5), (run_file ''D.java'', 6),
      (run_file ''E.java'', 7)]"
    by code_simp
  show ?thesis
    using no_chunk_dropped
            [where cs = run_collaborators and batch_size = 1 and w = 0 and java_files = run_files]
    unfolding c p by simp
qed

end
